theory Spec2Isabelle
  imports Main
begin

section \<open>Project mutation service of DokuNote (features/docs/actions)\<close>

text \<open>
  The five server actions \<open>createProject\<close>, \<open>updateProject\<close>, \<open>deleteProject\<close>,
  \<open>toggleProjectPublic\<close> and \<open>duplicateProject\<close> are embedded as functions on an explicit
  store. Every \<open>await\<close> on a collaborator may throw; what each call site throws is read from
  the environment of the invocation, so that every \<open>try\<close>/\<open>catch\<close> path of the source is a
  branch of the model. A value \<open>Inl e\<close> returned by an action is a fault that left the action.
  The logger calls have no effect on the store and are not modelled.
\<close>

subsection \<open>Data model\<close>

type_synonym timestamp = nat

datatype jsonValue = JString string | JBool bool | JNumber nat | JStrings "string list"

type_synonym settingsJson = "(string \<times> bool) list"

record project =
  projId :: string
  tenantId :: string
  name :: string
  slug :: string
  description :: "string option"
  isPublic :: bool
  publishedAt :: "timestamp option"
  isActive :: bool
  metaTitle :: "string option"
  metaDescription :: "string option"
  primaryColor :: "string option"
  customCss :: "string option"
  settings :: settingsJson
  createdAt :: timestamp
  updatedAt :: timestamp

record document =
  docId :: string
  docProjectId :: string
  docTitle :: string
  docOrder :: int

record event =
  evTenantId :: string
  evType :: string
  evData :: "(string \<times> jsonValue) list"

record store =
  projects :: "project list"
  documents :: "document list"
  events :: "event list"

text \<open>\<open>ProjectActionResult\<close>; the optional \<open>error\<close> member is never set by the actions.\<close>

record ProjectActionResult =
  success :: bool
  message :: string
  projectId :: "string option"

text \<open>Values that are thrown: a \<open>z.ZodError\<close>, which a schema's \<open>parse\<close> throws (its
  first issue message and the messages of the further issues), or another error, which
  any collaborator may throw.\<close>

datatype thrown = ZodError string "string list" | OtherError string

text \<open>The call sites of the collaborators.\<close>

datatype call =
    RequireAuth
  | RequireAuthInCatch
  | RequireTenantAccessForAPI
  | CreateTenantDBFromSession
  | CreateTenantDBFromSession2
  | DbProjectFindFirst
  | DbProjectFindUnique
  | DbProjectUpdate
  | TenantProjectsCreate
  | TenantProjectsUpdate
  | TenantEventsCreate

record session =
  userId :: string
  currentTenantId :: "string option"

text \<open>A submitted \<open>FormData\<close>: \<open>get\<close> yields the entry of a key or \<open>null\<close>.\<close>

type_synonym formData = "string \<rightharpoonup> string"

text \<open>The object \<open>rawData\<close> that \<open>createProject\<close> and \<open>updateProject\<close> build from the form.\<close>

record rawData =
  rawName :: "string option"
  rawDescription :: "string option"
  rawIsPublic :: bool
  rawMetaTitle :: "string option"
  rawMetaDescription :: "string option"
  rawPrimaryColor :: "string option"
  rawCustomCss :: "string option"

text \<open>\<open>validatedData\<close> of \<open>createProject\<close>.\<close>

record createData =
  vName :: string
  vDescription :: "string option"
  vIsPublic :: bool
  vMetaTitle :: "string option"
  vMetaDescription :: "string option"
  vPrimaryColor :: "string option"
  vCustomCss :: "string option"

text \<open>\<open>updateData\<close> of \<open>updateProject\<close>: the validated data, with \<open>slug\<close> when the name
  changed. A member that is \<open>undefined\<close> is \<open>None\<close>.\<close>

record updateData =
  uName :: "string option"
  uSlug :: "string option"
  uDescription :: "string option"
  uIsPublic :: bool
  uMetaTitle :: "string option"
  uMetaDescription :: "string option"
  uPrimaryColor :: "string option"
  uCustomCss :: "string option"

text \<open>
  The environment of one invocation: the session that \<open>requireAuth\<close> resolves, the error
  that each call site throws (\<open>None\<close>: it does not throw), the current time, which
  \<open>new Date()\<close> and the store read, the id that the store gives to a row created in this
  invocation, and the judgement of the two
  validation schemas (the issue messages; none when the data is well-formed).
\<close>

record env =
  session :: session
  faults :: "call \<Rightarrow> string option"
  now :: timestamp
  cuid :: string
  createProjectIssues :: "rawData \<Rightarrow> string list"
  updateProjectIssues :: "rawData \<Rightarrow> string list"

subsection \<open>Statements with effects and exceptions\<close>

type_synonym 'a step = "store \<Rightarrow> (thrown + 'a) \<times> store"

definition returns :: "'a \<Rightarrow> 'a step" where
  "returns x s = (Inr x, s)"

definition throw :: "thrown \<Rightarrow> 'a step" where
  "throw e s = (Inl e, s)"

definition andThen :: "'a step \<Rightarrow> ('a \<Rightarrow> 'b step) \<Rightarrow> 'b step" where
  "andThen m f s = (case m s of (Inl e, s') \<Rightarrow> (Inl e, s') | (Inr x, s') \<Rightarrow> f x s')"

text \<open>A call that throws the error that the environment has for its call site, before
  having any effect.\<close>

definition calling :: "env \<Rightarrow> call \<Rightarrow> 'a step \<Rightarrow> 'a step" where
  "calling env c m = (case faults env c of Some x \<Rightarrow> throw (OtherError x) | None \<Rightarrow> m)"

subsection \<open>JavaScript values\<close>

text \<open>\<open>x as string || undefined\<close> and the test \<open>!x\<close> on a string: \<open>null\<close>, \<open>undefined\<close>
  and the empty string are falsy.\<close>

definition truthy :: "string option \<Rightarrow> string option" where
  "truthy x = (case x of None \<Rightarrow> None | Some v \<Rightarrow> if v = [] then None else Some v)"

text \<open>The decimal numeral of a template literal \<open>${counter}\<close>.\<close>

definition digitChar :: "nat \<Rightarrow> char" where
  "digitChar d = char_of (48 + d)"

fun digits :: "nat \<Rightarrow> string" where
  "digits n = (if n < 10 then [digitChar n] else digits (n div 10) @ [digitChar (n mod 10)])"

declare digits.simps [simp del]

subsection \<open>Collaborators that are not part of the sources\<close>

text \<open>
  Modelled from the spec: \<open>generateSlug\<close> of \<open>lib/utils\<close> is missing. The spec says that the
  slug is derived deterministically from the name, "lowercase, separator-normalized", is
  URL-safe, and that "API Docs" gives \<open>api-docs\<close>: letters are lowered, every maximal run of
  characters other than \<open>a-z\<close> and \<open>0-9\<close> becomes one \<open>-\<close>, and a \<open>-\<close> at either end is dropped.
\<close>

definition isSlugChar :: "char \<Rightarrow> bool" where
  "isSlugChar c = (let n = (of_char c :: nat) in (97 \<le> n \<and> n \<le> 122) \<or> (48 \<le> n \<and> n \<le> 57))"

definition toLowerCase :: "char \<Rightarrow> char" where
  "toLowerCase c = (let n = (of_char c :: nat) in if 65 \<le> n \<and> n \<le> 90 then char_of (n + 32) else c)"

fun separators :: "string \<Rightarrow> string" where
  "separators [] = []"
| "separators [c] = [if isSlugChar c then c else CHR ''-'']"
| "separators (c # d # cs) =
     (if isSlugChar c then c # separators (d # cs)
      else if isSlugChar d then CHR ''-'' # separators (d # cs)
      else separators (d # cs))"

definition trimDashes :: "string \<Rightarrow> string" where
  "trimDashes xs = rev (dropWhile (\<lambda>c. c = CHR ''-'') (rev (dropWhile (\<lambda>c. c = CHR ''-'') xs)))"

definition generateSlug :: "string \<Rightarrow> string" where
  "generateSlug text = trimDashes (separators (map toLowerCase text))"

text \<open>\<open>requireAuth\<close> of \<open>features/auth/helpers\<close>: resolves the session or throws.\<close>

definition requireAuth :: "env \<Rightarrow> call \<Rightarrow> session step" where
  "requireAuth env c = calling env c (returns (session env))"

definition requireTenantAccessForAPI :: "env \<Rightarrow> string \<Rightarrow> unit step" where
  "requireTenantAccessForAPI env tenant = calling env RequireTenantAccessForAPI (returns ())"

text \<open>
  Modelled from the spec: \<open>createTenantDBFromSession\<close> of \<open>lib/multitenancy\<close> is missing. The
  spec says that every mutation is scoped to the tenant resolved from the session and that
  tenant isolation is enforced by filtering on \<open>tenantId\<close>: the client is the tenant id that
  its \<open>projects\<close> and \<open>events\<close> operations add to their filters and to the rows they create.
\<close>

type_synonym tenantDB = string

definition createTenantDBFromSession :: "env \<Rightarrow> call \<Rightarrow> tenantDB step" where
  "createTenantDBFromSession env c =
     calling env c
       (case truthy (currentTenantId (session env)) of
          None \<Rightarrow> throw (OtherError ''No tenant context'')
        | Some tenant \<Rightarrow> returns tenant)"

text \<open>
  Modelled from the spec: the schemas \<open>createProjectSchema\<close> and \<open>updateProjectSchema\<close> of
  \<open>lib/validation/tenant-schemas\<close> are missing. The spec says that validation is delegated to
  an external schema validator, which fails when required fields are missing or malformed
  (\<open>name\<close> is required on creation, every other field is optional) and otherwise yields the
  validated field set. What is malformed is the environment's judgement; a \<open>ZodError\<close> has
  at least one issue; data that passes is handed on as submitted. Data without a name
  never passes \<open>createProjectSchema\<close>: where the environment has no issue for it, the issue
  is the missing name.
\<close>

definition createProjectSchema_parse :: "env \<Rightarrow> rawData \<Rightarrow> createData step" where
  "createProjectSchema_parse env raw =
     (case createProjectIssues env raw of
        m # ms \<Rightarrow> throw (ZodError m ms)
      | [] \<Rightarrow>
         (case rawName raw of
            None \<Rightarrow> throw (ZodError ''Required'' [])
          | Some n \<Rightarrow>
              returns \<lparr>vName = n, vDescription = rawDescription raw, vIsPublic = rawIsPublic raw,
                vMetaTitle = rawMetaTitle raw, vMetaDescription = rawMetaDescription raw,
                vPrimaryColor = rawPrimaryColor raw, vCustomCss = rawCustomCss raw\<rparr>))"

definition updateProjectSchema_parse :: "env \<Rightarrow> rawData \<Rightarrow> updateData step" where
  "updateProjectSchema_parse env raw =
     (case updateProjectIssues env raw of
        m # ms \<Rightarrow> throw (ZodError m ms)
      | [] \<Rightarrow>
          returns \<lparr>uName = rawName raw, uSlug = None, uDescription = rawDescription raw,
            uIsPublic = rawIsPublic raw, uMetaTitle = rawMetaTitle raw,
            uMetaDescription = rawMetaDescription raw, uPrimaryColor = rawPrimaryColor raw,
            uCustomCss = rawCustomCss raw\<rparr>)"

subsection \<open>The store\<close>

text \<open>\<open>db.project.findFirst\<close> and \<open>db.project.findUnique\<close> with a \<open>where\<close> filter.\<close>

definition db_project_findFirst :: "env \<Rightarrow> (project \<Rightarrow> bool) \<Rightarrow> project option step" where
  "db_project_findFirst env P = calling env DbProjectFindFirst (\<lambda>s. returns (find P (projects s)) s)"

definition getProject :: "store \<Rightarrow> string \<Rightarrow> string \<Rightarrow> project option" where
  "getProject s i tenant = find (\<lambda>p. projId p = i \<and> tenantId p = tenant) (projects s)"

definition db_project_findUnique :: "env \<Rightarrow> string \<Rightarrow> string \<Rightarrow> project option step" where
  "db_project_findUnique env i tenant =
     calling env DbProjectFindUnique (\<lambda>s. returns (getProject s i tenant) s)"

fun replaceFirst :: "('a \<Rightarrow> bool) \<Rightarrow> 'a \<Rightarrow> 'a list \<Rightarrow> 'a list" where
  "replaceFirst P y [] = []"
| "replaceFirst P y (x # xs) = (if P x then y # xs else x # replaceFirst P y xs)"

text \<open>
  An \<open>update\<close> of the row selected by \<open>where\<close>: it throws when there is no such row, and
  returns the updated row.

  Modelled from the spec: the schema of the project table is missing. The spec lists the
  timestamps \<open>createdAt\<close> and \<open>updatedAt\<close> of a project as mutation-tracked, and no action
  names them in the data it writes: the store sets \<open>updatedAt\<close> of a row to the current
  time whenever it updates the row.
\<close>

definition project_update ::
  "env \<Rightarrow> (project \<Rightarrow> bool) \<Rightarrow> (project \<Rightarrow> project) \<Rightarrow> project step" where
  "project_update env P f s =
     (case find P (projects s) of
        None \<Rightarrow> throw (OtherError ''Record to update not found.'') s
      | Some p \<Rightarrow>
          returns ((f p)\<lparr>updatedAt := now env\<rparr>)
            (s\<lparr>projects := replaceFirst P ((f p)\<lparr>updatedAt := now env\<rparr>) (projects s)\<rparr>))"

definition db_project_update :: "env \<Rightarrow> string \<Rightarrow> (project \<Rightarrow> project) \<Rightarrow> project step" where
  "db_project_update env i f =
     calling env DbProjectUpdate (project_update env (\<lambda>p. projId p = i) f)"

definition tenantDB_projects_update ::
  "env \<Rightarrow> tenantDB \<Rightarrow> string \<Rightarrow> (project \<Rightarrow> project) \<Rightarrow> project step" where
  "tenantDB_projects_update env tdb i f =
     calling env TenantProjectsUpdate
       (project_update env (\<lambda>p. projId p = i \<and> tenantId p = tdb) f)"

text \<open>The data of \<open>tenantDB.projects.create\<close>, as both callers pass it.\<close>

record projectCreateInput =
  inName :: string
  inSlug :: string
  inDescription :: "string option"
  inIsPublic :: bool
  inMetaTitle :: "string option"
  inMetaDescription :: "string option"
  inPrimaryColor :: "string option"
  inCustomCss :: "string option"
  inSettings :: settingsJson

text \<open>
  Modelled from the spec: the schema of the project table is missing. The spec says that
  \<open>isActive\<close> is the soft-delete marker, false for a logically deleted project, and that
  \<open>publishedAt\<close> is set when a project becomes public and cleared when it is made private:
  a created row gets its id from the store and its tenant from the client, and the
  columns that the data does not name take their defaults, so the row is active and has
  no \<open>publishedAt\<close>. Its mutation-tracked timestamps \<open>createdAt\<close> and \<open>updatedAt\<close> are the
  current time.
\<close>

definition tenantDB_projects_create :: "env \<Rightarrow> tenantDB \<Rightarrow> projectCreateInput \<Rightarrow> project step" where
  "tenantDB_projects_create env tdb d =
     calling env TenantProjectsCreate
       (\<lambda>s. let p = \<lparr>projId = cuid env, tenantId = tdb, name = inName d, slug = inSlug d,
                     description = inDescription d, isPublic = inIsPublic d, publishedAt = None,
                     isActive = True, metaTitle = inMetaTitle d,
                     metaDescription = inMetaDescription d, primaryColor = inPrimaryColor d,
                     customCss = inCustomCss d, settings = inSettings d,
                     createdAt = now env, updatedAt = now env\<rparr>
             in returns p (s\<lparr>projects := projects s @ [p]\<rparr>))"

definition tenantDB_events_create ::
  "env \<Rightarrow> tenantDB \<Rightarrow> string \<Rightarrow> (string \<times> jsonValue) list \<Rightarrow> unit step" where
  "tenantDB_events_create env tdb ty d =
     calling env TenantEventsCreate
       (\<lambda>s. returns () (s\<lparr>events := events s @ [\<lparr>evTenantId = tdb, evType = ty, evData = d\<rparr>]\<rparr>))"

subsection \<open>createProject\<close>

definition createRawData :: "formData \<Rightarrow> rawData" where
  "createRawData formData =
     \<lparr>rawName = formData ''name'',
      rawDescription = truthy (formData ''description''),
      rawIsPublic = (formData ''isPublic'' = Some ''true''),
      rawMetaTitle = truthy (formData ''metaTitle''),
      rawMetaDescription = truthy (formData ''metaDescription''),
      rawPrimaryColor = truthy (formData ''primaryColor''),
      rawCustomCss = truthy (formData ''customCss'')\<rparr>"

definition defaultSettings :: settingsJson where
  "defaultSettings =
     [(''enableSearch'', True), (''enableFeedback'', True), (''showLastUpdated'', True),
      (''enablePrintMode'', True)]"

definition noTenantSelected :: ProjectActionResult where
  "noTenantSelected =
     \<lparr>success = False,
      message = ''Please select an organization before creating a project.'',
      projectId = None\<rparr>"

definition slugConflict :: ProjectActionResult where
  "slugConflict =
     \<lparr>success = False,
      message = ''A project with this name already exists. Please choose a different name.'',
      projectId = None\<rparr>"

definition createFailed :: ProjectActionResult where
  "createFailed =
     \<lparr>success = False, message = ''Failed to create project. Please try again.'',
      projectId = None\<rparr>"

text \<open>The body of the \<open>try\<close> block.\<close>

definition createProject_try :: "env \<Rightarrow> formData \<Rightarrow> ProjectActionResult step" where
  "createProject_try env formData =
     andThen (requireAuth env RequireAuth) (\<lambda>session.
     case truthy (currentTenantId session) of
       None \<Rightarrow> returns noTenantSelected
     | Some tenant \<Rightarrow>
         andThen (createProjectSchema_parse env (createRawData formData)) (\<lambda>validatedData.
         andThen (requireTenantAccessForAPI env tenant) (\<lambda>_.
         andThen (createTenantDBFromSession env CreateTenantDBFromSession) (\<lambda>tenantDB.
         andThen (db_project_findFirst env
                    (\<lambda>p. tenantId p = tenant \<and> slug p = generateSlug (vName validatedData)))
           (\<lambda>existingProject.
         case existingProject of
           Some _ \<Rightarrow> returns slugConflict
         | None \<Rightarrow>
             andThen (tenantDB_projects_create env tenantDB
                        \<lparr>inName = vName validatedData,
                         inSlug = generateSlug (vName validatedData),
                         inDescription = vDescription validatedData,
                         inIsPublic = vIsPublic validatedData,
                         inMetaTitle = vMetaTitle validatedData,
                         inMetaDescription = vMetaDescription validatedData,
                         inPrimaryColor = vPrimaryColor validatedData,
                         inCustomCss = vCustomCss validatedData,
                         inSettings = defaultSettings\<rparr>) (\<lambda>project.
             andThen (createTenantDBFromSession env CreateTenantDBFromSession2) (\<lambda>tenantDB2.
             andThen (tenantDB_events_create env tenantDB2 ''project_created''
                        [(''projectId'', JString (projId project)),
                         (''projectName'', JString (name project)),
                         (''isPublic'', JBool (isPublic project))]) (\<lambda>_.
             returns \<lparr>success = True, message = ''Project created successfully!'',
                      projectId = Some (projId project)\<rparr>))))))))"

text \<open>The \<open>catch\<close> block: a \<open>ZodError\<close> gives its first issue message; for any other
  error the handler calls \<open>requireAuth\<close> again, for the user id of its log entry, before it
  returns the generic failure.\<close>

definition createProject :: "env \<Rightarrow> formData \<Rightarrow> ProjectActionResult step" where
  "createProject env formData s =
     (case createProject_try env formData s of
        (Inr r, s') \<Rightarrow> (Inr r, s')
      | (Inl (ZodError m ms), s') \<Rightarrow> (Inr \<lparr>success = False, message = m, projectId = None\<rparr>, s')
      | (Inl (OtherError x), s') \<Rightarrow>
          andThen (requireAuth env RequireAuthInCatch) (\<lambda>_. returns createFailed) s')"

subsection \<open>updateProject\<close>

definition updateRawData :: "formData \<Rightarrow> rawData" where
  "updateRawData formData =
     \<lparr>rawName = truthy (formData ''name''),
      rawDescription = truthy (formData ''description''),
      rawIsPublic = (formData ''isPublic'' = Some ''true''),
      rawMetaTitle = truthy (formData ''metaTitle''),
      rawMetaDescription = truthy (formData ''metaDescription''),
      rawPrimaryColor = truthy (formData ''primaryColor''),
      rawCustomCss = truthy (formData ''customCss'')\<rparr>"

definition tenantRequired :: ProjectActionResult where
  "tenantRequired = \<lparr>success = False, message = ''Tenant context required.'', projectId = None\<rparr>"

definition notFound :: ProjectActionResult where
  "notFound =
     \<lparr>success = False, message = ''Project not found or you do not have access to it.'',
      projectId = None\<rparr>"

definition updateFailed :: ProjectActionResult where
  "updateFailed =
     \<lparr>success = False, message = ''Failed to update project. Please try again.'',
      projectId = None\<rparr>"

text \<open>What an \<open>update\<close> with \<open>data: updateData\<close> writes: the members that are defined.\<close>

definition orElse :: "'a option \<Rightarrow> 'a option \<Rightarrow> 'a option" where
  "orElse new old = (case new of None \<Rightarrow> old | Some v \<Rightarrow> Some v)"

definition applyUpdateData :: "updateData \<Rightarrow> project \<Rightarrow> project" where
  "applyUpdateData d p =
     p\<lparr>name := (case uName d of None \<Rightarrow> name p | Some n \<Rightarrow> n),
       slug := (case uSlug d of None \<Rightarrow> slug p | Some n \<Rightarrow> n),
       description := orElse (uDescription d) (description p),
       isPublic := uIsPublic d,
       metaTitle := orElse (uMetaTitle d) (metaTitle p),
       metaDescription := orElse (uMetaDescription d) (metaDescription p),
       primaryColor := orElse (uPrimaryColor d) (primaryColor p),
       customCss := orElse (uCustomCss d) (customCss p)\<rparr>"

text \<open>\<open>Object.keys(updateData)\<close>: the seven members of \<open>rawData\<close>, and \<open>slug\<close> when it
  was added.\<close>

definition updateDataKeys :: "updateData \<Rightarrow> string list" where
  "updateDataKeys d =
     [''name'', ''description'', ''isPublic'', ''metaTitle'', ''metaDescription'',
      ''primaryColor'', ''customCss'']
     @ (case uSlug d of None \<Rightarrow> [] | Some _ \<Rightarrow> [''slug''])"

text \<open>The statements from the \<open>update\<close> to the end of the \<open>try\<close> block.\<close>

definition updateProject_write ::
  "env \<Rightarrow> tenantDB \<Rightarrow> string \<Rightarrow> updateData \<Rightarrow> ProjectActionResult step" where
  "updateProject_write env tenantDB pid updateData =
     andThen (tenantDB_projects_update env tenantDB pid (applyUpdateData updateData))
       (\<lambda>updatedProject.
     andThen (tenantDB_events_create env tenantDB ''project_updated''
                [(''projectId'', JString (projId updatedProject)),
                 (''projectName'', JString (name updatedProject)),
                 (''changes'', JStrings (updateDataKeys updateData))]) (\<lambda>_.
     returns \<lparr>success = True, message = ''Project updated successfully!'',
              projectId = Some (projId updatedProject)\<rparr>))"

text \<open>The test \<open>validatedData.name && validatedData.name !== existingProject.name\<close>.\<close>

definition nameChanged :: "updateData \<Rightarrow> project \<Rightarrow> bool" where
  "nameChanged validatedData existingProject =
     (case truthy (uName validatedData) of
        None \<Rightarrow> False
      | Some n \<Rightarrow> n \<noteq> name existingProject)"

definition updateProject_try :: "env \<Rightarrow> string \<Rightarrow> formData \<Rightarrow> ProjectActionResult step" where
  "updateProject_try env pid formData =
     andThen (requireAuth env RequireAuth) (\<lambda>session.
     case truthy (currentTenantId session) of
       None \<Rightarrow> returns tenantRequired
     | Some tenant \<Rightarrow>
         andThen (updateProjectSchema_parse env (updateRawData formData)) (\<lambda>validatedData.
         andThen (requireTenantAccessForAPI env tenant) (\<lambda>_.
         andThen (createTenantDBFromSession env CreateTenantDBFromSession) (\<lambda>tenantDB.
         andThen (db_project_findUnique env pid tenant) (\<lambda>existingProject.
         case existingProject of
           None \<Rightarrow> returns notFound
         | Some existing \<Rightarrow>
             if nameChanged validatedData existing then
               andThen (db_project_findFirst env
                          (\<lambda>p. tenantId p = tenant
                               \<and> slug p = generateSlug (case uName validatedData of
                                                          None \<Rightarrow> [] | Some n \<Rightarrow> n)
                               \<and> projId p \<noteq> pid)) (\<lambda>conflictingProject.
               case conflictingProject of
                 Some _ \<Rightarrow> returns slugConflict
               | None \<Rightarrow>
                   updateProject_write env tenantDB pid
                     (validatedData\<lparr>uSlug :=
                        Some (generateSlug (case uName validatedData of
                                              None \<Rightarrow> [] | Some n \<Rightarrow> n))\<rparr>))
             else updateProject_write env tenantDB pid validatedData)))))"

definition updateProject :: "env \<Rightarrow> string \<Rightarrow> formData \<Rightarrow> ProjectActionResult step" where
  "updateProject env pid formData s =
     (case updateProject_try env pid formData s of
        (Inr r, s') \<Rightarrow> (Inr r, s')
      | (Inl (ZodError m ms), s') \<Rightarrow> (Inr \<lparr>success = False, message = m, projectId = None\<rparr>, s')
      | (Inl (OtherError x), s') \<Rightarrow> (Inr updateFailed, s'))"

subsection \<open>deleteProject\<close>

definition deleteFailed :: ProjectActionResult where
  "deleteFailed =
     \<lparr>success = False, message = ''Failed to delete project. Please try again.'',
      projectId = None\<rparr>"

text \<open>\<open>_count.documents\<close> of an included project.\<close>

definition countDocuments :: "store \<Rightarrow> string \<Rightarrow> nat" where
  "countDocuments s pid = length (filter (\<lambda>d. docProjectId d = pid) (documents s))"

text \<open>A \<open>catch\<close> block that returns one result for whatever was thrown.\<close>

definition catchAll :: "ProjectActionResult \<Rightarrow> ProjectActionResult step \<Rightarrow> ProjectActionResult step" where
  "catchAll failed m s = (case m s of (Inr r, s') \<Rightarrow> (Inr r, s') | (Inl e, s') \<Rightarrow> (Inr failed, s'))"

definition deleteProject_try :: "env \<Rightarrow> string \<Rightarrow> ProjectActionResult step" where
  "deleteProject_try env pid =
     andThen (requireAuth env RequireAuth) (\<lambda>session.
     case truthy (currentTenantId session) of
       None \<Rightarrow> returns tenantRequired
     | Some tenant \<Rightarrow>
         andThen (requireTenantAccessForAPI env tenant) (\<lambda>_.
         andThen (createTenantDBFromSession env CreateTenantDBFromSession) (\<lambda>tenantDB.
         andThen (db_project_findUnique env pid tenant) (\<lambda>found.
         case found of
           None \<Rightarrow> returns notFound
         | Some project \<Rightarrow>
             (\<lambda>s. let documentCount = countDocuments s pid in
               andThen (db_project_update env pid (\<lambda>p. p\<lparr>isActive := False\<rparr>)) (\<lambda>_.
               andThen (tenantDB_events_create env tenantDB ''project_deleted''
                          [(''projectId'', JString pid),
                           (''projectName'', JString (name project)),
                           (''documentCount'', JNumber documentCount)]) (\<lambda>_.
               returns \<lparr>success = True, message = ''Project deleted successfully.'',
                        projectId = None\<rparr>)) s)))))"

definition deleteProject :: "env \<Rightarrow> string \<Rightarrow> ProjectActionResult step" where
  "deleteProject env pid = catchAll deleteFailed (deleteProject_try env pid)"

subsection \<open>toggleProjectPublic\<close>

definition toggleFailed :: ProjectActionResult where
  "toggleFailed =
     \<lparr>success = False, message = ''Failed to update project visibility. Please try again.'',
      projectId = None\<rparr>"

definition toggleProjectPublic_try :: "env \<Rightarrow> string \<Rightarrow> bool \<Rightarrow> ProjectActionResult step" where
  "toggleProjectPublic_try env pid isPublic' =
     andThen (requireAuth env RequireAuth) (\<lambda>session.
     case truthy (currentTenantId session) of
       None \<Rightarrow> returns tenantRequired
     | Some tenant \<Rightarrow>
         andThen (requireTenantAccessForAPI env tenant) (\<lambda>_.
         andThen (createTenantDBFromSession env CreateTenantDBFromSession) (\<lambda>tenantDB.
         andThen (tenantDB_projects_update env tenantDB pid
                    (\<lambda>p. p\<lparr>isPublic := isPublic',
                            publishedAt := (if isPublic' then Some (now env) else None)\<rparr>))
           (\<lambda>updatedProject.
         andThen (tenantDB_events_create env tenantDB
                    (if isPublic' then ''project_published'' else ''project_unpublished'')
                    [(''projectId'', JString pid),
                     (''projectName'', JString (name updatedProject))]) (\<lambda>_.
         returns \<lparr>success = True,
                  message = ''Project '' @ (if isPublic' then ''published'' else ''unpublished'')
                            @ '' successfully!'',
                  projectId = Some (projId updatedProject)\<rparr>)))))"

definition toggleProjectPublic :: "env \<Rightarrow> string \<Rightarrow> bool \<Rightarrow> ProjectActionResult step" where
  "toggleProjectPublic env pid isPublic' =
     catchAll toggleFailed (toggleProjectPublic_try env pid isPublic')"

subsection \<open>duplicateProject\<close>

text \<open>The source's loop has no bound, so the action is a partial function: \<open>None\<close> is a
  call that does not return.\<close>

type_synonym 'a pstep = "store \<Rightarrow> ((thrown + 'a) \<times> store) option"

definition total :: "'a step \<Rightarrow> 'a pstep" where
  "total m s = Some (m s)"

definition andThenP :: "'a pstep \<Rightarrow> ('a \<Rightarrow> 'b pstep) \<Rightarrow> 'b pstep" where
  "andThenP m f s =
     (case m s of
        None \<Rightarrow> None
      | Some (Inl e, s') \<Rightarrow> Some (Inl e, s')
      | Some (Inr x, s') \<Rightarrow> f x s')"

definition sourceNotFound :: ProjectActionResult where
  "sourceNotFound =
     \<lparr>success = False,
      message = ''Source project not found or you do not have access to it.'',
      projectId = None\<rparr>"

definition duplicateFailed :: ProjectActionResult where
  "duplicateFailed =
     \<lparr>success = False, message = ''Failed to duplicate project. Please try again.'',
      projectId = None\<rparr>"

text \<open>The \<open>while\<close> loop, entered with the first candidate slug and \<open>counter = 1\<close>.\<close>

partial_function (option) uniqueSlug ::
  "env \<Rightarrow> string \<Rightarrow> string \<Rightarrow> string \<Rightarrow> nat \<Rightarrow> store \<Rightarrow> ((thrown + string) \<times> store) option" where
  "uniqueSlug env tenant duplicateName duplicateSlug counter s =
     (case db_project_findFirst env (\<lambda>p. tenantId p = tenant \<and> slug p = duplicateSlug) s of
        (Inl e, s') \<Rightarrow> Some (Inl e, s')
      | (Inr None, s') \<Rightarrow> Some (Inr duplicateSlug, s')
      | (Inr (Some _), s') \<Rightarrow>
          uniqueSlug env tenant duplicateName
            (generateSlug (duplicateName @ '' '' @ digits counter)) (counter + 1) s')"

definition duplicateProject_try :: "env \<Rightarrow> string \<Rightarrow> ProjectActionResult pstep" where
  "duplicateProject_try env pid =
     andThenP (total (requireAuth env RequireAuth)) (\<lambda>session.
     case truthy (currentTenantId session) of
       None \<Rightarrow> total (returns tenantRequired)
     | Some tenant \<Rightarrow>
         andThenP (total (requireTenantAccessForAPI env tenant)) (\<lambda>_.
         andThenP (total (createTenantDBFromSession env CreateTenantDBFromSession)) (\<lambda>tenantDB.
         andThenP (total (db_project_findUnique env pid tenant)) (\<lambda>found.
         case found of
           None \<Rightarrow> total (returns sourceNotFound)
         | Some sourceProject \<Rightarrow>
             andThenP (uniqueSlug env tenant (name sourceProject @ '' (Copy)'')
                         (generateSlug (name sourceProject @ '' (Copy)'')) 1) (\<lambda>duplicateSlug.
             andThenP (total (tenantDB_projects_create env tenantDB
                         \<lparr>inName = name sourceProject @ '' (Copy)'',
                          inSlug = duplicateSlug,
                          inDescription = description sourceProject,
                          inIsPublic = False,
                          inMetaTitle = metaTitle sourceProject,
                          inMetaDescription = metaDescription sourceProject,
                          inPrimaryColor = primaryColor sourceProject,
                          inCustomCss = customCss sourceProject,
                          inSettings = settings sourceProject\<rparr>)) (\<lambda>duplicate.
             andThenP (total (tenantDB_events_create env tenantDB ''project_duplicated''
                         [(''sourceProjectId'', JString pid),
                          (''duplicateProjectId'', JString (projId duplicate)),
                          (''projectName'', JString (name duplicate))])) (\<lambda>_.
             total (returns \<lparr>success = True, message = ''Project duplicated successfully!'',
                             projectId = Some (projId duplicate)\<rparr>))))))))"

definition duplicateProject :: "env \<Rightarrow> string \<Rightarrow> ProjectActionResult pstep" where
  "duplicateProject env pid s =
     (case duplicateProject_try env pid s of
        None \<Rightarrow> None
      | Some (Inr r, s') \<Rightarrow> Some (Inr r, s')
      | Some (Inl e, s') \<Rightarrow> Some (Inr duplicateFailed, s'))"

subsection \<open>Notions used in the statements\<close>

text \<open>The candidate slugs of \<open>duplicateProject\<close>'s loop: the slug of the duplicate's name,
  then the slugs of the name followed by the counters 1, 2, 3, ...\<close>

definition candidateName :: "string \<Rightarrow> nat \<Rightarrow> string" where
  "candidateName duplicateName k = (if k = 0 then duplicateName else duplicateName @ '' '' @ digits k)"

definition candidateSlug :: "string \<Rightarrow> nat \<Rightarrow> string" where
  "candidateSlug duplicateName k = generateSlug (candidateName duplicateName k)"

definition slugHeld :: "store \<Rightarrow> string \<Rightarrow> string \<Rightarrow> bool" where
  "slugHeld s tenant sl = (find (\<lambda>p. tenantId p = tenant \<and> slug p = sl) (projects s) \<noteq> None)"




text \<open>The data that \<open>updateProject\<close> validates for a form, the conditions under which a
  call gets as far as the comparison of the names (nothing throws, a tenant is selected,
  the form is well-formed, the project exists in the tenant), the row that the store
  holds after an update with given data, and the result of a successful update.\<close>

definition submittedData :: "formData \<Rightarrow> updateData" where
  "submittedData formData =
     \<lparr>uName = truthy (formData ''name''), uSlug = None,
      uDescription = truthy (formData ''description''),
      uIsPublic = (formData ''isPublic'' = Some ''true''),
      uMetaTitle = truthy (formData ''metaTitle''),
      uMetaDescription = truthy (formData ''metaDescription''),
      uPrimaryColor = truthy (formData ''primaryColor''),
      uCustomCss = truthy (formData ''customCss'')\<rparr>"

definition reachesUpdate :: "env \<Rightarrow> string \<Rightarrow> formData \<Rightarrow> store \<Rightarrow> string \<Rightarrow> project \<Rightarrow> bool" where
  "reachesUpdate env pid formData s tenant p \<longleftrightarrow>
     faults env RequireAuth = None
     \<and> truthy (currentTenantId (session env)) = Some tenant
     \<and> updateProjectIssues env (updateRawData formData) = []
     \<and> faults env RequireTenantAccessForAPI = None
     \<and> faults env CreateTenantDBFromSession = None
     \<and> faults env DbProjectFindUnique = None
     \<and> getProject s pid tenant = Some p"

definition writtenRow :: "env \<Rightarrow> updateData \<Rightarrow> project \<Rightarrow> project" where
  "writtenRow env d p = (applyUpdateData d p)\<lparr>updatedAt := now env\<rparr>"

definition updatedResult :: "string \<Rightarrow> ProjectActionResult" where
  "updatedResult pid =
     \<lparr>success = True, message = ''Project updated successfully!'', projectId = Some pid\<rparr>"

subsection \<open>An example environment and store\<close>

text \<open>A signed-in member of tenant \<open>t1\<close>, no call throws, every form is well-formed; the
  store holds one private project with one document.\<close>

definition demoEnv :: env where
  "demoEnv =
     \<lparr>session = \<lparr>userId = ''u1'', currentTenantId = Some ''t1''\<rparr>,
      faults = (\<lambda>c. None), now = 1700, cuid = ''p9'',
      createProjectIssues = (\<lambda>raw. []), updateProjectIssues = (\<lambda>raw. [])\<rparr>"

definition demoProject :: project where
  "demoProject =
     \<lparr>projId = ''p1'', tenantId = ''t1'', name = ''API Docs'', slug = ''api-docs'',
      description = None, isPublic = False, publishedAt = None, isActive = True,
      metaTitle = None, metaDescription = None, primaryColor = None, customCss = None,
      settings = defaultSettings, createdAt = 1500, updatedAt = 1500\<rparr>"

definition demoStore :: store where
  "demoStore =
     \<lparr>projects = [demoProject],
      documents = [\<lparr>docId = ''d1'', docProjectId = ''p1'', docTitle = ''Intro'', docOrder = 0\<rparr>],
      events = []\<rparr>"


definition publicStore :: store where
  "publicStore = demoStore\<lparr>projects := [demoProject\<lparr>isPublic := True, publishedAt := Some 1600\<rparr>]\<rparr>"

text \<open>A store whose only project is deleted; a store with a second project; environments
  in which the event store, the slug lookup or the authentication fails.\<close>

definition deletedStore :: store where
  "deletedStore = demoStore\<lparr>projects := [demoProject\<lparr>isActive := False\<rparr>]\<rparr>"

definition twoStore :: store where
  "twoStore =
     demoStore\<lparr>projects :=
       [demoProject, demoProject\<lparr>projId := ''p2'', name := ''Guides'', slug := ''guides''\<rparr>]\<rparr>"

definition findFirstDownEnv :: env where
  "findFirstDownEnv =
     demoEnv\<lparr>faults := (\<lambda>c. if c = DbProjectFindFirst then Some ''connection lost'' else None)\<rparr>"

definition eventsDownEnv :: env where
  "eventsDownEnv =
     demoEnv\<lparr>faults := (\<lambda>c. if c = TenantEventsCreate then Some ''event store unavailable'' else None)\<rparr>"

definition signedOutEnv :: env where
  "signedOutEnv =
     demoEnv\<lparr>faults := (\<lambda>c. if c = RequireAuth \<or> c = RequireAuthInCatch
                              then Some ''Unauthorized'' else None)\<rparr>"

section \<open>Properties\<close>

subsection \<open>Unfolding the statements, and facts about the store's lists\<close>

lemmas step_defs = returns_def throw_def andThen_def calling_def

lemmas collaborator_defs = requireAuth_def requireTenantAccessForAPI_def
  createTenantDBFromSession_def db_project_findFirst_def db_project_findUnique_def
  db_project_update_def tenantDB_projects_update_def tenantDB_projects_create_def
  tenantDB_events_create_def project_update_def

lemma find_holds: "find P xs = Some p \<Longrightarrow> P p"
  by (induction xs) (auto split: if_splits)

lemma find_replaceFirst:
  "find P xs = Some p \<Longrightarrow> P y \<Longrightarrow> find P (replaceFirst P y xs) = Some y"
  by (induction xs) (auto split: if_splits)

lemma find_in_set: "find P xs = Some p \<Longrightarrow> p \<in> set xs"
  by (induction xs) (auto split: if_splits)

lemma find_by_id:
  assumes "distinct (map projId xs)"
    and "find (\<lambda>q. projId q = i \<and> tenantId q = t) xs = Some p"
  shows "find (\<lambda>q. projId q = i) xs = Some p"
  using assms
proof (induction xs)
  case Nil
  then show ?case by simp
next
  case (Cons x xs)
  show ?case
  proof (cases "projId x = i")
    case True
    have "tenantId x = t"
    proof (rule ccontr)
      assume "tenantId x \<noteq> t"
      with Cons.prems(2) have "find (\<lambda>q. projId q = i \<and> tenantId q = t) xs = Some p" by simp
      then have "p \<in> set xs" and "projId p = i"
        by (auto dest: find_in_set find_holds)
      with True Cons.prems(1) show False by (auto simp: image_iff)
    qed
    with True Cons.prems(2) show ?thesis by simp
  next
    case False
    with Cons show ?thesis by simp
  qed
qed

lemma replaceFirst_as_map:
  assumes "distinct (map projId xs)"
  shows "replaceFirst (\<lambda>q. projId q = i) y xs = map (\<lambda>q. if projId q = i then y else q) xs"
  using assms
proof (induction xs)
  case Nil
  then show ?case by simp
next
  case (Cons x xs)
  show ?case
  proof (cases "projId x = i")
    case True
    with Cons.prems have "\<And>q. q \<in> set xs \<Longrightarrow> projId q \<noteq> i"
      by (auto simp: image_iff)
    then have "map (\<lambda>q. if projId q = i then y else q) xs = xs"
      by (simp add: map_idI)
    with True show ?thesis by simp
  next
    case False
    with Cons show ?thesis by simp
  qed
qed

lemma toggleProjectPublic_success:
  assumes "toggleProjectPublic env pid b s = (Inr r, s')" and "success r"
  shows "\<exists>tenant p. truthy (currentTenantId (session env)) = Some tenant
    \<and> getProject s pid tenant = Some p
    \<and> projects s' = replaceFirst (\<lambda>q. projId q = pid \<and> tenantId q = tenant)
           (p\<lparr>isPublic := b, publishedAt := (if b then Some (now env) else None),
                 updatedAt := now env\<rparr>) (projects s)
    \<and> documents s' = documents s"
  using assms
  unfolding toggleProjectPublic_def catchAll_def toggleProjectPublic_try_def collaborator_defs
    getProject_def
  by (auto simp: step_defs toggleFailed_def tenantRequired_def
      split: option.splits sum.splits prod.splits if_splits)

lemma deleteProject_success:
  assumes "deleteProject env pid s = (Inr r, s')" and "success r"
  shows "\<exists>tenant p p0. truthy (currentTenantId (session env)) = Some tenant
    \<and> getProject s pid tenant = Some p
    \<and> find (\<lambda>q. projId q = pid) (projects s) = Some p0
    \<and> s' = s\<lparr>projects := replaceFirst (\<lambda>q. projId q = pid)
                              (p0\<lparr>isActive := False, updatedAt := now env\<rparr>) (projects s),
                events := events s @ [\<lparr>evTenantId = tenant, evType = ''project_deleted'',
                   evData = [(''projectId'', JString pid), (''projectName'', JString (name p)),
                             (''documentCount'', JNumber (countDocuments s pid))]\<rparr>]\<rparr>"
  using assms
  unfolding deleteProject_def catchAll_def deleteProject_try_def collaborator_defs
  by (auto simp: step_defs deleteFailed_def tenantRequired_def notFound_def Let_def
      split: option.splits sum.splits prod.splits if_splits)

lemmas demo_defs = demoEnv_def demoProject_def demoStore_def

lemma truthy_idem: "truthy (truthy x) = truthy x"
  by (simp add: truthy_def split: option.splits)

lemma truthy_simps:
  "truthy None = None"
  "truthy (Some v) = (if v = [] then None else Some v)"
  "truthy x \<noteq> Some []"
  by (simp_all add: truthy_def split: option.splits)

lemma andThen_InrE:
  assumes "andThen m f s = (Inr r, s')"
  obtains x s1 where "m s = (Inr x, s1)" and "f x s1 = (Inr r, s')"
  using assms by (auto simp: andThen_def split: prod.splits sum.splits)

lemma calling_InrD:
  "calling env c m s = (Inr r, s') \<Longrightarrow> faults env c = None \<and> m s = (Inr r, s')"
  by (auto simp: calling_def throw_def split: option.splits)

lemma returns_InrD: "returns x s = (Inr r, s') \<Longrightarrow> r = x \<and> s' = s"
  by (simp add: returns_def)

lemma throw_InrD: "throw e s = (Inr r, s') \<Longrightarrow> False"
  by (simp add: throw_def)

lemma demo_context:
  "\<And>c. faults demoEnv c = None"
  "truthy (currentTenantId (session demoEnv)) = Some ''t1''"
  "cuid demoEnv = ''p9''"
  "updateProjectIssues demoEnv raw = []"
  "createProjectIssues demoEnv raw = []"
  by (simp_all add: demoEnv_def truthy_def)

lemma generateSlug_demo:
  "generateSlug ''API Docs'' = ''api-docs''"
  "generateSlug ''Guides'' = ''guides''"
  "generateSlug ''api docs'' = ''api-docs''"
  "generateSlug ''Guides!'' = ''guides''"
  by code_simp+

subsection \<open>Visibility toggle\<close>

text \<open>
  Claim C7. Every call \<open>toggleProjectPublic(projectId, true)\<close> that succeeds leaves the
  project with \<open>isPublic = true\<close> and \<open>publishedAt\<close> set to the current time, and every
  successful call with \<open>false\<close> leaves it with \<open>isPublic = false\<close> and \<open>publishedAt\<close>
  cleared. The project is the row of the caller's tenant with the given id, read before
  and after the call as \<open>db.project.findUnique\<close> reads it; its other fields are as before,
  but for \<open>updatedAt\<close>, which the store stamps with the current time.
\<close>

theorem toggleProjectPublic_synchronises_publishedAt:
  assumes "toggleProjectPublic env pid b s = (Inr r, s')" and "success r"
  shows "\<exists>tenant p. truthy (currentTenantId (session env)) = Some tenant
           \<and> getProject s pid tenant = Some p
           \<and> getProject s' pid tenant
               = Some (p\<lparr>isPublic := b, publishedAt := (if b then Some (now env) else None),
                 updatedAt := now env\<rparr>)"
proof -
  from assms obtain tenant p where t: "truthy (currentTenantId (session env)) = Some tenant"
    and p: "getProject s pid tenant = Some p"
    and s': "projects s' = replaceFirst (\<lambda>q. projId q = pid \<and> tenantId q = tenant)
           (p\<lparr>isPublic := b, publishedAt := (if b then Some (now env) else None),
                 updatedAt := now env\<rparr>) (projects s)"
    using toggleProjectPublic_success by blast
  from p have "projId p = pid \<and> tenantId p = tenant"
    unfolding getProject_def by (rule find_holds)
  with p s' have "getProject s' pid tenant
      = Some (p\<lparr>isPublic := b, publishedAt := (if b then Some (now env) else None),
                 updatedAt := now env\<rparr>)"
    unfolding getProject_def by (simp add: find_replaceFirst)
  with t p show ?thesis by blast
qed

text \<open>Publishing and then unpublishing the example project.\<close>

theorem toggleProjectPublic_synchronises_publishedAt_witness:
  "fst (toggleProjectPublic demoEnv ''p1'' True demoStore)
     = Inr \<lparr>success = True, message = ''Project published successfully!'', projectId = Some ''p1''\<rparr>
   \<and> getProject (snd (toggleProjectPublic demoEnv ''p1'' True demoStore)) ''p1'' ''t1''
     = Some (demoProject\<lparr>isPublic := True, publishedAt := Some 1700, updatedAt := 1700\<rparr>)
   \<and> fst (toggleProjectPublic demoEnv ''p1'' False
             (snd (toggleProjectPublic demoEnv ''p1'' True demoStore)))
     = Inr \<lparr>success = True, message = ''Project unpublished successfully!'', projectId = Some ''p1''\<rparr>
   \<and> getProject (snd (toggleProjectPublic demoEnv ''p1'' False
                        (snd (toggleProjectPublic demoEnv ''p1'' True demoStore)))) ''p1'' ''t1''
     = Some (demoProject\<lparr>isPublic := False, publishedAt := None, updatedAt := 1700\<rparr>)"
proof -
  let ?r1 = "\<lparr>success = True, message = ''Project published successfully!'', projectId = Some ''p1''\<rparr>"
  let ?r2 = "\<lparr>success = True, message = ''Project unpublished successfully!'', projectId = Some ''p1''\<rparr>"
  obtain s1 where on: "toggleProjectPublic demoEnv ''p1'' True demoStore = (Inr ?r1, s1)"
    by (simp add: toggleProjectPublic_def catchAll_def toggleProjectPublic_try_def
        collaborator_defs step_defs truthy_def getProject_def demo_defs)
  have before: "getProject demoStore ''p1'' ''t1'' = Some demoProject"
    by (simp add: getProject_def demo_defs)
  have tenant: "truthy (currentTenantId (session demoEnv)) = Some ''t1''"
    by (simp add: truthy_def demoEnv_def)
  have clock: "now demoEnv = 1700"
    by (simp add: demoEnv_def)
  from toggleProjectPublic_synchronises_publishedAt [OF on] before tenant clock
  have p1: "getProject s1 ''p1'' ''t1'' = Some (demoProject\<lparr>isPublic := True, publishedAt := Some 1700, updatedAt := 1700\<rparr>)"
    by auto
  obtain s2 where off: "toggleProjectPublic demoEnv ''p1'' False s1 = (Inr ?r2, s2)"
    using p1
    by (simp add: toggleProjectPublic_def catchAll_def toggleProjectPublic_try_def
        collaborator_defs step_defs truthy_def getProject_def demoEnv_def demoProject_def)
  from toggleProjectPublic_synchronises_publishedAt [OF off] p1 tenant clock
  have "getProject s2 ''p1'' ''t1'' = Some (demoProject\<lparr>isPublic := False, publishedAt := None, updatedAt := 1700\<rparr>)"
    by auto
  with on off p1 show ?thesis by simp
qed

subsection \<open>Logical deletion\<close>

lemma find_map_deactivate:
  "find (\<lambda>q. projId q = i \<and> tenantId q = t)
     (map (\<lambda>q. if projId q = i then q\<lparr>isActive := False, updatedAt := u\<rparr> else q) xs)
   = map_option (\<lambda>q. q\<lparr>isActive := False, updatedAt := u\<rparr>)
       (find (\<lambda>q. projId q = i \<and> tenantId q = t) xs)"
  by (induction xs) auto

text \<open>
  Claim C6, as amended. A successful \<open>deleteProject\<close> sets \<open>isActive\<close> of the target project
  to false, the store stamps that row's \<open>updatedAt\<close> with the current time, and the event
  store gains one \<open>project_deleted\<close> event; nothing else changes: no row is removed, a
  lookup by id in the caller's tenant finds the project with \<open>isActive = false\<close> and every
  field other than \<open>isActive\<close> and \<open>updatedAt\<close> as before, every other project is as before,
  and the documents are untouched. The ids of the stored projects are distinct, \<open>id\<close> being
  the primary key.
\<close>

theorem deleteProject_is_logical:
  assumes "distinct (map projId (projects s))"
    and "deleteProject env pid s = (Inr r, s')" and "success r"
  shows "\<exists>tenant p. truthy (currentTenantId (session env)) = Some tenant
           \<and> getProject s pid tenant = Some p
           \<and> getProject s' pid tenant = Some (p\<lparr>isActive := False, updatedAt := now env\<rparr>)
           \<and> projects s'
               = map (\<lambda>q. if projId q = pid then q\<lparr>isActive := False, updatedAt := now env\<rparr> else q)
                   (projects s)
           \<and> documents s' = documents s
           \<and> events s' = events s @
                [\<lparr>evTenantId = tenant, evType = ''project_deleted'',
                  evData = [(''projectId'', JString pid), (''projectName'', JString (name p)),
                            (''documentCount'', JNumber (countDocuments s pid))]\<rparr>]"
proof -
  let ?off = "\<lambda>q. q\<lparr>isActive := False, updatedAt := now env\<rparr>"
  from assms(2,3) obtain tenant p p0
    where t: "truthy (currentTenantId (session env)) = Some tenant"
    and p: "getProject s pid tenant = Some p"
    and p0: "find (\<lambda>q. projId q = pid) (projects s) = Some p0"
    and s': "s' = s\<lparr>projects := replaceFirst (\<lambda>q. projId q = pid)
                              (p0\<lparr>isActive := False, updatedAt := now env\<rparr>) (projects s),
                events := events s @ [\<lparr>evTenantId = tenant, evType = ''project_deleted'',
                   evData = [(''projectId'', JString pid), (''projectName'', JString (name p)),
                             (''documentCount'', JNumber (countDocuments s pid))]\<rparr>]\<rparr>"
    using deleteProject_success by blast
  from assms(1) p have "find (\<lambda>q. projId q = pid) (projects s) = Some p"
    unfolding getProject_def by (rule find_by_id)
  with p0 have same: "p0 = p" by simp
  from p have sel: "projId p = pid \<and> tenantId p = tenant" and mem: "p \<in> set (projects s)"
    unfolding getProject_def by (auto dest: find_holds find_in_set)
  have only: "q = p" if "q \<in> set (projects s)" and "projId q = pid" for q
    using assms(1) mem sel that by (auto simp: distinct_map dest: inj_onD)
  have "replaceFirst (\<lambda>q. projId q = pid) (?off p) (projects s)
      = map (\<lambda>q. if projId q = pid then ?off p else q) (projects s)"
    using assms(1) by (rule replaceFirst_as_map)
  also have "\<dots> = map (\<lambda>q. if projId q = pid then ?off q else q) (projects s)"
    by (rule map_cong) (auto dest: only)
  finally have ps: "projects s' = map (\<lambda>q. if projId q = pid then ?off q else q) (projects s)"
    using s' same by simp
  have row: "getProject s' pid tenant = Some (?off p)"
    using p unfolding getProject_def ps by (simp only: find_map_deactivate option.map)
  from s' have ds: "documents s' = documents s" by simp
  from s' have es: "events s' = events s @
                [\<lparr>evTenantId = tenant, evType = ''project_deleted'',
                  evData = [(''projectId'', JString pid), (''projectName'', JString (name p)),
                            (''documentCount'', JNumber (countDocuments s pid))]\<rparr>]"
    by simp
  from t p row ps ds es show ?thesis by (intro exI [of _ tenant] exI [of _ p]) simp
qed

lemma deleteProject_demo:
  "deleteProject demoEnv ''p1'' demoStore
     = (Inr \<lparr>success = True, message = ''Project deleted successfully.'', projectId = None\<rparr>,
        demoStore\<lparr>projects := [demoProject\<lparr>isActive := False, updatedAt := 1700\<rparr>],
                  events := [\<lparr>evTenantId = ''t1'', evType = ''project_deleted'',
                    evData = [(''projectId'', JString ''p1''), (''projectName'', JString ''API Docs''),
                              (''documentCount'', JNumber 1)]\<rparr>]\<rparr>)"
  by (simp add: deleteProject_def catchAll_def deleteProject_try_def collaborator_defs step_defs
      truthy_def getProject_def countDocuments_def demo_defs)

text \<open>The claim as stated fails: the deletion of the example project succeeds, the event
  store, empty before, holds an event afterwards, and the project's \<open>updatedAt\<close> has gone
  from 1500 to 1700.\<close>

theorem deleteProject_changes_more_counterexample:
  "fst (deleteProject demoEnv ''p1'' demoStore)
     = Inr \<lparr>success = True, message = ''Project deleted successfully.'', projectId = None\<rparr>
   \<and> events demoStore = []
   \<and> events (snd (deleteProject demoEnv ''p1'' demoStore))
     = [\<lparr>evTenantId = ''t1'', evType = ''project_deleted'',
         evData = [(''projectId'', JString ''p1''), (''projectName'', JString ''API Docs''),
                   (''documentCount'', JNumber 1)]\<rparr>]
   \<and> map_option updatedAt (getProject demoStore ''p1'' ''t1'') = Some 1500
   \<and> map_option updatedAt (getProject (snd (deleteProject demoEnv ''p1'' demoStore)) ''p1'' ''t1'')
     = Some 1700"
  by (simp add: deleteProject_demo) (simp add: getProject_def demo_defs)

text \<open>Deleting the example project, which has one document.\<close>

theorem deleteProject_is_logical_witness:
  "distinct (map projId (projects demoStore))
   \<and> fst (deleteProject demoEnv ''p1'' demoStore)
       = Inr \<lparr>success = True, message = ''Project deleted successfully.'', projectId = None\<rparr>
   \<and> getProject (snd (deleteProject demoEnv ''p1'' demoStore)) ''p1'' ''t1''
       = Some (demoProject\<lparr>isActive := False, updatedAt := 1700\<rparr>)
   \<and> projects (snd (deleteProject demoEnv ''p1'' demoStore))
       = [demoProject\<lparr>isActive := False, updatedAt := 1700\<rparr>]
   \<and> documents (snd (deleteProject demoEnv ''p1'' demoStore)) = documents demoStore
   \<and> length (events (snd (deleteProject demoEnv ''p1'' demoStore))) = 1"
proof -
  let ?r = "\<lparr>success = True, message = ''Project deleted successfully.'', projectId = None\<rparr>"
  have d: "distinct (map projId (projects demoStore))"
    by (simp add: demo_defs)
  obtain s' where del: "deleteProject demoEnv ''p1'' demoStore = (Inr ?r, s')"
    by (simp add: deleteProject_demo)
  have before: "getProject demoStore ''p1'' ''t1'' = Some demoProject"
    by (simp add: getProject_def demo_defs)
  have ps: "projects demoStore = [demoProject]" and "projId demoProject = ''p1''"
    and "events demoStore = []" and "now demoEnv = 1700"
    by (simp_all add: demo_defs)
  with deleteProject_is_logical [OF d del] before demo_context(2)
  have "getProject s' ''p1'' ''t1'' = Some (demoProject\<lparr>isActive := False, updatedAt := 1700\<rparr>)
      \<and> projects s' = [demoProject\<lparr>isActive := False, updatedAt := 1700\<rparr>]
      \<and> documents s' = documents demoStore \<and> length (events s') = 1"
    by auto
  with d del show ?thesis by simp
qed

subsection \<open>Duplication\<close>

lemma uniqueSlug_result:
  assumes "uniqueSlug env tenant dn sl c s = Some y"
  shows "snd y = s \<and> (\<forall>sl'. fst y = Inr sl' \<longrightarrow>
            find (\<lambda>p. tenantId p = tenant \<and> slug p = sl') (projects s) = None)"
proof (rule uniqueSlug.raw_induct
    [where P = "\<lambda>env tenant dn sl c s y. snd y = s \<and> (\<forall>sl'. fst y = Inr sl' \<longrightarrow>
            find (\<lambda>p. tenantId p = tenant \<and> slug p = sl') (projects s) = None)", OF _ assms])
  fix loop env tenant dn sl c s y
  assume IH: "\<And>env tenant dn sl c s y. loop env tenant dn sl c s = Some y \<Longrightarrow>
      snd y = s \<and> (\<forall>sl'. fst y = Inr sl' \<longrightarrow>
            find (\<lambda>p. tenantId p = tenant \<and> slug p = sl') (projects s) = None)"
    and step: "(case db_project_findFirst env (\<lambda>p. tenantId p = tenant \<and> slug p = sl) s of
        (Inl e, s') \<Rightarrow> Some (Inl e, s')
      | (Inr None, s') \<Rightarrow> Some (Inr sl, s')
      | (Inr (Some x), s') \<Rightarrow>
          loop env tenant dn (generateSlug (dn @ '' '' @ digits c)) (c + 1) s') = Some y"
  from step show "snd y = s \<and> (\<forall>sl'. fst y = Inr sl' \<longrightarrow>
            find (\<lambda>p. tenantId p = tenant \<and> slug p = sl') (projects s) = None)"
    by (auto simp: db_project_findFirst_def step_defs
        split: option.splits sum.splits prod.splits dest: IH)
qed

lemma duplicateProject_success:
  assumes "duplicateProject env pid s = Some (Inr r, s')" and "success r"
  shows "\<exists>tenant src sl. truthy (currentTenantId (session env)) = Some tenant
    \<and> getProject s pid tenant = Some src
    \<and> uniqueSlug env tenant (name src @ '' (Copy)'') (generateSlug (name src @ '' (Copy)'')) 1 s
        = Some (Inr sl, s)
    \<and> r = \<lparr>success = True, message = ''Project duplicated successfully!'', projectId = Some (cuid env)\<rparr>
    \<and> projects s' = projects s @
         [\<lparr>projId = cuid env, tenantId = tenant, name = name src @ '' (Copy)'', slug = sl,
           description = description src, isPublic = False, publishedAt = None,
           isActive = True, metaTitle = metaTitle src, metaDescription = metaDescription src,
           primaryColor = primaryColor src, customCss = customCss src, settings = settings src,
           createdAt = now env, updatedAt = now env\<rparr>]
    \<and> documents s' = documents s"
  using assms
  unfolding duplicateProject_def duplicateProject_try_def collaborator_defs
  by (auto simp: step_defs andThenP_def total_def duplicateFailed_def tenantRequired_def
      sourceNotFound_def Let_def
      split: option.splits sum.splits prod.splits if_splits dest!: uniqueSlug_result)

text \<open>
  Claim C8. Whatever the source project's \<open>isPublic\<close> is, a successful \<open>duplicateProject\<close>
  adds one project, the copy whose id it returns, and the copy has \<open>isPublic = false\<close>.
\<close>

theorem duplicateProject_copy_is_private:
  assumes "duplicateProject env pid s = Some (Inr r, s')" and "success r"
  shows "\<exists>tenant src copy. truthy (currentTenantId (session env)) = Some tenant
           \<and> getProject s pid tenant = Some src
           \<and> projects s' = projects s @ [copy]
           \<and> projectId r = Some (projId copy)
           \<and> name copy = name src @ '' (Copy)''
           \<and> isPublic copy = False"
  using duplicateProject_success [OF assms] by auto









lemma dash_not_slug: "\<not> isSlugChar CHR ''-''"
  by (simp add: isSlugChar_def)






lemma dropWhile_keeps_end:
  "\<exists>z. dropWhile P (w @ [x]) = z @ [x] \<or> dropWhile P (w @ [x]) = []"
  by (induction w) auto





lemma uniqueSlug_search:
  assumes "faults env DbProjectFindFirst = None"
    and "\<not> slugHeld s tenant (candidateSlug dn k)"
    and "\<And>j. k0 \<le> j \<Longrightarrow> j < k \<Longrightarrow> slugHeld s tenant (candidateSlug dn j)"
    and "k0 \<le> k"
  shows "uniqueSlug env tenant dn (candidateSlug dn k0) (Suc k0) s
       = Some (Inr (candidateSlug dn k), s)"
  using assms(3,4)
proof (induction "k - k0" arbitrary: k0)
  case 0
  then have "k0 = k" by simp
  with assms(1,2) show ?case
    by (subst uniqueSlug.simps)
      (simp add: db_project_findFirst_def step_defs slugHeld_def)
next
  case (Suc n)
  then have lt: "k0 < k" by simp
  with Suc.prems have held: "slugHeld s tenant (candidateSlug dn k0)" by simp
  have next_slug: "generateSlug (dn @ '' '' @ digits (Suc k0)) = candidateSlug dn (Suc k0)"
    by (simp add: candidateSlug_def candidateName_def)
  have "uniqueSlug env tenant dn (candidateSlug dn (Suc k0)) (Suc (Suc k0)) s
      = Some (Inr (candidateSlug dn k), s)"
    using Suc.hyps(2) Suc.prems lt by (intro Suc.hyps(1)) auto
  with held assms(1) next_slug show ?case
    by (subst uniqueSlug.simps)
      (auto simp: db_project_findFirst_def step_defs slugHeld_def)
qed


lemma slugHeld_iff:
  "slugHeld s tenant sl \<longleftrightarrow> (\<exists>p \<in> set (projects s). tenantId p = tenant \<and> slug p = sl)"
  unfolding slugHeld_def by (induction "projects s" arbitrary: s) (auto simp: find_None_iff)



lemma andThenP_total:
  "andThenP (total m) f s = (case m s of (Inl e, s') \<Rightarrow> Some (Inl e, s') | (Inr x, s') \<Rightarrow> f x s')"
  by (simp add: andThenP_def total_def split: prod.splits sum.splits)

lemma andThenP_loop:
  "m s = Some (y, s) \<Longrightarrow>
   andThenP m f s = (case y of Inl e \<Rightarrow> Some (Inl e, s) | Inr x \<Rightarrow> f x s)"
  by (simp add: andThenP_def split: sum.splits)



lemma duplicateProject_runs:
  assumes "\<And>c. faults env c = None"
    and "truthy (currentTenantId (session env)) = Some tenant"
    and "getProject s pid tenant = Some src"
    and "uniqueSlug env tenant (name src @ '' (Copy)'') (generateSlug (name src @ '' (Copy)'')) 1 s
           = Some (Inr sl, s)"
  shows "duplicateProject env pid s
     = Some (Inr \<lparr>success = True, message = ''Project duplicated successfully!'',
                  projectId = Some (cuid env)\<rparr>,
             s\<lparr>projects := projects s @
                  [\<lparr>projId = cuid env, tenantId = tenant, name = name src @ '' (Copy)'', slug = sl,
                    description = description src, isPublic = False, publishedAt = None,
                    isActive = True, metaTitle = metaTitle src,
                    metaDescription = metaDescription src, primaryColor = primaryColor src,
                    customCss = customCss src, settings = settings src,
                    createdAt = now env, updatedAt = now env\<rparr>],
               events := events s @
                  [\<lparr>evTenantId = tenant, evType = ''project_duplicated'',
                    evData = [(''sourceProjectId'', JString pid),
                              (''duplicateProjectId'', JString (cuid env)),
                              (''projectName'', JString (name src @ '' (Copy)''))]\<rparr>]\<rparr>)"
  using assms
  unfolding duplicateProject_def duplicateProject_try_def collaborator_defs
  by (simp add: andThenP_total andThenP_loop total_def step_defs Let_def)

lemma candidateSlug_demo:
  "candidateSlug ''API Docs (Copy)'' 0 = ''api-docs-copy''"
  "candidateSlug ''API Docs (Copy)'' 1 = ''api-docs-copy-1''"
  "candidateSlug ''API Docs (Copy)'' 2 = ''api-docs-copy-2''"
  by code_simp+





text \<open>Duplicating a public project.\<close>

theorem duplicateProject_copy_is_private_witness:
  "\<exists>s'. duplicateProject demoEnv ''p1'' publicStore
          = Some (Inr \<lparr>success = True, message = ''Project duplicated successfully!'',
                       projectId = Some ''p9''\<rparr>, s')
      \<and> map isPublic (projects publicStore) = [True]
      \<and> map isPublic (projects s') = [True, False]"
proof -
  let ?r = "\<lparr>success = True, message = ''Project duplicated successfully!'',
             projectId = Some ''p9''\<rparr>"
  let ?src = "demoProject\<lparr>isPublic := True, publishedAt := Some 1600\<rparr>"
  have src: "getProject publicStore ''p1'' ''t1'' = Some ?src"
    by (simp add: getProject_def publicStore_def demo_defs)
  have "uniqueSlug demoEnv ''t1'' ''API Docs (Copy)'' (candidateSlug ''API Docs (Copy)'' 0) (Suc 0)
          publicStore
        = Some (Inr (candidateSlug ''API Docs (Copy)'' 0), publicStore)"
    by (rule uniqueSlug_search)
      (simp_all add: demo_context candidateSlug_demo slugHeld_def publicStore_def demo_defs)
  then have loop: "uniqueSlug demoEnv ''t1'' (name ?src @ '' (Copy)'')
      (generateSlug (name ?src @ '' (Copy)'')) 1 publicStore
        = Some (Inr ''api-docs-copy'', publicStore)"
    using candidateSlug_demo(1) by (simp add: candidateSlug_def candidateName_def demoProject_def)
  obtain s' where run: "duplicateProject demoEnv ''p1'' publicStore = Some (Inr ?r, s')"
    using duplicateProject_runs [OF demo_context(1) demo_context(2) src loop]
    by (simp add: demo_context)
  have before: "map isPublic (projects publicStore) = [True]"
    by (simp add: publicStore_def demo_defs)
  from duplicateProject_copy_is_private [OF run] obtain copy
    where "projects s' = projects publicStore @ [copy]" and "isPublic copy = False"
    by auto
  with before have "map isPublic (projects s') = [True, False]" by simp
  with run before show ?thesis by (intro exI [of _ s']) simp
qed

subsection \<open>Creation\<close>

lemma createProject_check:
  assumes "faults env RequireAuth = None"
    and "truthy (currentTenantId (session env)) = Some tenant"
    and "createProjectIssues env (createRawData formData) = []"
    and "formData ''name'' = Some n"
    and "faults env RequireTenantAccessForAPI = None"
    and "faults env CreateTenantDBFromSession = None"
    and "faults env DbProjectFindFirst = None"
    and "find (\<lambda>p. tenantId p = tenant \<and> slug p = generateSlug n) (projects s) = Some p"
  shows "createProject env formData s = (Inr slugConflict, s)"
  using assms
  by (simp add: createProject_def createProject_try_def collaborator_defs
      createProjectSchema_parse_def createRawData_def step_defs)

lemma createProject_passes_check:
  assumes "faults env RequireAuth = None"
    and "truthy (currentTenantId (session env)) = Some tenant"
    and "createProjectIssues env (createRawData formData) = []"
    and "formData ''name'' = Some n"
    and "faults env RequireTenantAccessForAPI = None"
    and "faults env CreateTenantDBFromSession = None"
    and "faults env DbProjectFindFirst = None"
    and "find (\<lambda>p. tenantId p = tenant \<and> slug p = generateSlug n) (projects s) = None"
  shows "fst (createProject env formData s) \<noteq> Inr slugConflict"
  using assms
  by (auto simp: createProject_def createProject_try_def collaborator_defs
      createProjectSchema_parse_def createRawData_def step_defs slugConflict_def createFailed_def
      Let_def split: option.splits)

text \<open>
  Claim C2, as amended. When \<open>createProject\<close> gets as far as the uniqueness check (the caller
  is authenticated, a tenant is selected, the form is well-formed, no collaborator
  throws), it returns the slug conflict failure if and only if some project of the
  caller's tenant, active or deleted, has the slug derived from the submitted name. A
  project of another tenant never causes the failure.
\<close>

theorem createProject_slugConflict_iff:
  assumes "faults env RequireAuth = None"
    and "truthy (currentTenantId (session env)) = Some tenant"
    and "createProjectIssues env (createRawData formData) = []"
    and "formData ''name'' = Some n"
    and "faults env RequireTenantAccessForAPI = None"
    and "faults env CreateTenantDBFromSession = None"
    and "faults env DbProjectFindFirst = None"
  shows "fst (createProject env formData s) = Inr slugConflict
     \<longleftrightarrow> (\<exists>p \<in> set (projects s). tenantId p = tenant \<and> slug p = generateSlug n)"
proof (cases "find (\<lambda>p. tenantId p = tenant \<and> slug p = generateSlug n) (projects s)")
  case None
  then have "\<not> (\<exists>p \<in> set (projects s). tenantId p = tenant \<and> slug p = generateSlug n)"
    by (simp add: find_None_iff)
  moreover from assms None have "fst (createProject env formData s) \<noteq> Inr slugConflict"
    by (rule createProject_passes_check)
  ultimately show ?thesis by simp
next
  case (Some p)
  then have "\<exists>p \<in> set (projects s). tenantId p = tenant \<and> slug p = generateSlug n"
    by (auto dest: find_in_set find_holds)
  moreover from assms Some have "createProject env formData s = (Inr slugConflict, s)"
    by (rule createProject_check)
  ultimately show ?thesis by simp
qed

text \<open>The claim as stated fails: the only project of the store is deleted, and a
  creation under its name is refused with the slug conflict.\<close>

theorem createProject_slugConflict_deleted_counterexample:
  "map isActive (projects deletedStore) = [False]
   \<and> createProject demoEnv [''name'' \<mapsto> ''API Docs''] deletedStore = (Inr slugConflict, deletedStore)"
proof -
  have "find (\<lambda>p. tenantId p = ''t1'' \<and> slug p = generateSlug ''API Docs'') (projects deletedStore)
      = Some (demoProject\<lparr>isActive := False\<rparr>)"
    by (simp add: generateSlug_demo deletedStore_def demo_defs)
  then have "createProject demoEnv [''name'' \<mapsto> ''API Docs''] deletedStore
      = (Inr slugConflict, deletedStore)"
    by (intro createProject_check) (simp_all add: demoEnv_def truthy_def)
  then show ?thesis by (simp add: deletedStore_def demo_defs)
qed

text \<open>The same name in the same tenant, another name, and the same name in another
  tenant.\<close>

theorem createProject_slugConflict_iff_witness:
  "fst (createProject demoEnv [''name'' \<mapsto> ''API Docs''] deletedStore) = Inr slugConflict
   \<and> fst (createProject demoEnv [''name'' \<mapsto> ''Guides''] deletedStore) \<noteq> Inr slugConflict
   \<and> fst (createProject (demoEnv\<lparr>session := \<lparr>userId = ''u2'', currentTenantId = Some ''t2''\<rparr>\<rparr>)
             [''name'' \<mapsto> ''API Docs''] deletedStore) \<noteq> Inr slugConflict"
proof -
  have slugs: "map slug (projects deletedStore) = [''api-docs'']"
    and tenants: "map tenantId (projects deletedStore) = [''t1'']"
    by (simp_all add: deletedStore_def demo_defs)
  have ps: "projects deletedStore = [demoProject\<lparr>isActive := False\<rparr>]"
    by (simp add: deletedStore_def demo_defs)
  have "fst (createProject demoEnv [''name'' \<mapsto> ''API Docs''] deletedStore) = Inr slugConflict"
    using createProject_slugConflict_iff
      [of demoEnv "''t1''" "[''name'' \<mapsto> ''API Docs'']" "''API Docs''" deletedStore]
    by (simp add: demoEnv_def truthy_def generateSlug_demo ps demoProject_def)
  moreover
  have "fst (createProject demoEnv [''name'' \<mapsto> ''Guides''] deletedStore) \<noteq> Inr slugConflict"
    using createProject_slugConflict_iff
      [of demoEnv "''t1''" "[''name'' \<mapsto> ''Guides'']" "''Guides''" deletedStore]
    by (simp add: demoEnv_def truthy_def generateSlug_demo ps demoProject_def)
  moreover
  have "fst (createProject (demoEnv\<lparr>session := \<lparr>userId = ''u2'', currentTenantId = Some ''t2''\<rparr>\<rparr>)
             [''name'' \<mapsto> ''API Docs''] deletedStore) \<noteq> Inr slugConflict"
    using createProject_slugConflict_iff
      [of "demoEnv\<lparr>session := \<lparr>userId = ''u2'', currentTenantId = Some ''t2''\<rparr>\<rparr>" "''t2''"
          "[''name'' \<mapsto> ''API Docs'']" "''API Docs''" deletedStore]
    by (simp add: demoEnv_def truthy_def generateSlug_demo ps demoProject_def)
  ultimately show ?thesis by simp
qed

text \<open>
  Claim C10. When the project row is written and the event write then throws,
  \<open>createProject\<close> returns \<open>success = false\<close> with the generic failure message, and the store
  holds the new project, created at the current time: a failure result does not mean
  that the store is unchanged. The handler's own call of \<open>requireAuth\<close> is assumed not to
  throw.
\<close>

theorem createProject_not_atomic:
  assumes "faults env RequireAuth = None"
    and "truthy (currentTenantId (session env)) = Some tenant"
    and "createProjectIssues env (createRawData formData) = []"
    and "formData ''name'' = Some n"
    and "faults env RequireTenantAccessForAPI = None"
    and "faults env CreateTenantDBFromSession = None"
    and "faults env DbProjectFindFirst = None"
    and "find (\<lambda>p. tenantId p = tenant \<and> slug p = generateSlug n) (projects s) = None"
    and "faults env TenantProjectsCreate = None"
    and "faults env CreateTenantDBFromSession2 = None"
    and "faults env TenantEventsCreate = Some x"
    and "faults env RequireAuthInCatch = None"
  shows "createProject env formData s
     = (Inr \<lparr>success = False, message = ''Failed to create project. Please try again.'',
              projectId = None\<rparr>,
        s\<lparr>projects := projects s @
             [\<lparr>projId = cuid env, tenantId = tenant, name = n, slug = generateSlug n,
               description = truthy (formData ''description''),
               isPublic = (formData ''isPublic'' = Some ''true''), publishedAt = None,
               isActive = True, metaTitle = truthy (formData ''metaTitle''),
               metaDescription = truthy (formData ''metaDescription''),
               primaryColor = truthy (formData ''primaryColor''),
               customCss = truthy (formData ''customCss''), settings = defaultSettings,
               createdAt = now env, updatedAt = now env\<rparr>]\<rparr>)
   \<and> projects (snd (createProject env formData s)) \<noteq> projects s"
  using assms
  by (simp add: createProject_def createProject_try_def collaborator_defs
      createProjectSchema_parse_def createRawData_def step_defs createFailed_def Let_def)

text \<open>A creation while the event store is unavailable.\<close>

theorem createProject_not_atomic_witness:
  "fst (createProject eventsDownEnv [''name'' \<mapsto> ''Guides''] demoStore)
     = Inr \<lparr>success = False, message = ''Failed to create project. Please try again.'',
             projectId = None\<rparr>
   \<and> map name (projects (snd (createProject eventsDownEnv [''name'' \<mapsto> ''Guides''] demoStore)))
     = [''API Docs'', ''Guides'']
   \<and> map name (projects demoStore) = [''API Docs'']
   \<and> events (snd (createProject eventsDownEnv [''name'' \<mapsto> ''Guides''] demoStore)) = []"
  using createProject_not_atomic
    [of eventsDownEnv "''t1''" "[''name'' \<mapsto> ''Guides'']" "''Guides''" demoStore
        "''event store unavailable''"]
  by (simp add: eventsDownEnv_def demo_defs truthy_def generateSlug_demo)

text \<open>
  Claim C1. The invariant "\<open>publishedAt\<close> is set if and only if \<open>isPublic\<close>" should hold of
  every project that the service produces. \<open>createProject\<close> breaks it: created with
  \<open>isPublic = true\<close>, the new project \<open>p9\<close> is public and has no \<open>publishedAt\<close>.
\<close>

theorem createProject_public_without_publishedAt:
  "fst (createProject demoEnv [''name'' \<mapsto> ''Guides'', ''isPublic'' \<mapsto> ''true''] demoStore)
     = Inr \<lparr>success = True, message = ''Project created successfully!'', projectId = Some ''p9''\<rparr>
   \<and> map (\<lambda>p. (projId p, isPublic p, publishedAt p))
        (projects (snd (createProject demoEnv [''name'' \<mapsto> ''Guides'', ''isPublic'' \<mapsto> ''true'']
                          demoStore)))
     = [(''p1'', False, None), (''p9'', True, None)]"
  by (simp add: createProject_def createProject_try_def collaborator_defs
      createProjectSchema_parse_def createRawData_def step_defs Let_def demo_defs truthy_def
      generateSlug_demo)

text \<open>
  Claim C4. No action should let a thrown fault reach its caller. \<open>createProject\<close> does:
  when \<open>requireAuth\<close> throws, the handler calls it again and the second fault leaves the
  action. The other four actions always return a result, as the lemmas after the
  theorem show, and so does \<open>createProject\<close> when the handler's call does not throw.
\<close>

theorem createProject_fault_escapes:
  "createProject signedOutEnv [''name'' \<mapsto> ''Guides''] demoStore
     = (Inl (OtherError ''Unauthorized''), demoStore)"
  by (simp add: createProject_def createProject_try_def collaborator_defs step_defs
      signedOutEnv_def demoEnv_def)

lemma createProject_escapes:
  assumes "faults env RequireAuth = Some x" and "faults env RequireAuthInCatch = Some y"
  shows "createProject env formData s = (Inl (OtherError y), s)"
  using assms
  by (simp add: createProject_def createProject_try_def collaborator_defs step_defs)

lemma createProject_returns:
  assumes "faults env RequireAuthInCatch = None"
  shows "\<exists>r s'. createProject env formData s = (Inr r, s')"
proof (cases "createProject_try env formData s")
  case (Pair y s')
  with assms show ?thesis
    by (cases y; cases "projl y")
      (auto simp: createProject_def requireAuth_def step_defs split: thrown.splits)
qed

lemma updateProject_returns: "\<exists>r s'. updateProject env pid formData s = (Inr r, s')"
  by (auto simp: updateProject_def split: prod.splits sum.splits thrown.splits)

lemma catchAll_returns: "\<exists>r s'. catchAll failed m s = (Inr r, s')"
  by (auto simp: catchAll_def split: prod.splits sum.splits)

lemma deleteProject_returns: "\<exists>r s'. deleteProject env pid s = (Inr r, s')"
  unfolding deleteProject_def by (rule catchAll_returns)

lemma toggleProjectPublic_returns: "\<exists>r s'. toggleProjectPublic env pid b s = (Inr r, s')"
  unfolding toggleProjectPublic_def by (rule catchAll_returns)

subsection \<open>Update\<close>

lemma updateProject_try_reached:
  assumes "reachesUpdate env pid formData s tenant p"
  shows "updateProject_try env pid formData s
     = (case truthy (formData ''name'') of
          None \<Rightarrow> updateProject_write env tenant pid (submittedData formData) s
        | Some n \<Rightarrow>
            if n = name p then updateProject_write env tenant pid (submittedData formData) s
            else (case faults env DbProjectFindFirst of
                    Some x \<Rightarrow> (Inl (OtherError x), s)
                  | None \<Rightarrow>
                      (case find (\<lambda>q. tenantId q = tenant \<and> slug q = generateSlug n
                                       \<and> projId q \<noteq> pid) (projects s) of
                         Some q \<Rightarrow> (Inr slugConflict, s)
                       | None \<Rightarrow> updateProject_write env tenant pid
                                   ((submittedData formData)\<lparr>uSlug := Some (generateSlug n)\<rparr>) s)))"
  using assms
  unfolding reachesUpdate_def updateProject_try_def requireAuth_def requireTenantAccessForAPI_def
    createTenantDBFromSession_def db_project_findUnique_def db_project_findFirst_def
    updateProjectSchema_parse_def updateRawData_def submittedData_def
  by (simp add: step_defs nameChanged_def truthy_idem split: option.splits)

lemma updateProject_try_success:
  assumes "updateProject_try env pid formData s = (Inr r, s')" and "success r"
  shows "\<exists>tenant p. reachesUpdate env pid formData s tenant p"
  using assms
  unfolding updateProject_try_def requireAuth_def requireTenantAccessForAPI_def
    createTenantDBFromSession_def db_project_findUnique_def
    updateProjectSchema_parse_def reachesUpdate_def
  by (auto elim!: andThen_InrE dest!: calling_InrD returns_InrD throw_InrD
      simp: tenantRequired_def notFound_def
      split: option.splits list.splits)

lemma applyUpdateData_key [simp]:
  "projId (applyUpdateData d p) = projId p" "tenantId (applyUpdateData d p) = tenantId p"
  by (simp_all add: applyUpdateData_def)

lemma writtenRow_key [simp]:
  "projId (writtenRow env d p) = projId p" "tenantId (writtenRow env d p) = tenantId p"
  "name (writtenRow env d p) = name (applyUpdateData d p)"
  by (simp_all add: writtenRow_def applyUpdateData_def)

lemma updateProject_write_eq:
  assumes "getProject s pid tenant = Some p"
  shows "updateProject_write env tenant pid d s
     = (case faults env TenantProjectsUpdate of
          Some x \<Rightarrow> (Inl (OtherError x), s)
        | None \<Rightarrow>
            (case faults env TenantEventsCreate of
               Some x \<Rightarrow>
                 (Inl (OtherError x),
                  s\<lparr>projects := replaceFirst (\<lambda>q. projId q = pid \<and> tenantId q = tenant)
                                   (writtenRow env d p) (projects s)\<rparr>)
             | None \<Rightarrow>
                 (Inr (updatedResult pid),
                  s\<lparr>projects := replaceFirst (\<lambda>q. projId q = pid \<and> tenantId q = tenant)
                                   (writtenRow env d p) (projects s),
                    events := events s @
                      [\<lparr>evTenantId = tenant, evType = ''project_updated'',
                        evData = [(''projectId'', JString pid),
                                  (''projectName'', JString (name (applyUpdateData d p))),
                                  (''changes'', JStrings (updateDataKeys d))]\<rparr>]\<rparr>)))"
proof -
  from assms have "projId p = pid"
    unfolding getProject_def by (auto dest: find_holds)
  with assms show ?thesis
    unfolding updateProject_write_def tenantDB_projects_update_def tenantDB_events_create_def
      project_update_def getProject_def
    by (simp add: step_defs updatedResult_def writtenRow_def split: option.splits)
qed

lemma updateProject_write_success:
  assumes "getProject s pid tenant = Some p"
    and "updateProject_write env tenant pid d s = (Inr r, s')"
  shows "r = updatedResult pid
    \<and> getProject s' pid tenant = Some (writtenRow env d p)
    \<and> documents s' = documents s"
proof -
  from assms(1) have sel: "projId p = pid \<and> tenantId p = tenant"
    unfolding getProject_def by (rule find_holds)
  from assms(2) have r: "r = updatedResult pid"
    and ps: "projects s' = replaceFirst (\<lambda>q. projId q = pid \<and> tenantId q = tenant)
                                   (writtenRow env d p) (projects s)"
    and ds: "documents s' = documents s"
    unfolding updateProject_write_eq [OF assms(1)]
    by (auto split: option.splits)
  from assms(1) sel have "getProject s' pid tenant = Some (writtenRow env d p)"
    unfolding getProject_def ps by (simp add: find_replaceFirst)
  with r ds show ?thesis by simp
qed

lemma updateProject_catch:
  "updateProject_try env pid formData s = (Inr r, s') \<Longrightarrow>
   updateProject env pid formData s = (Inr r, s')"
  by (simp add: updateProject_def)

lemma updateProject_success_try:
  assumes "updateProject env pid formData s = (Inr r, s')" and "success r"
  shows "updateProject_try env pid formData s = (Inr r, s')"
  using assms
  by (auto simp: updateProject_def updateFailed_def split: prod.splits sum.splits thrown.splits)

lemma updateProject_success:
  assumes "updateProject env pid formData s = (Inr r, s')" and "success r"
  shows "\<exists>tenant p sl. reachesUpdate env pid formData s tenant p
    \<and> getProject s' pid tenant = Some (writtenRow env ((submittedData formData)\<lparr>uSlug := sl\<rparr>) p)
    \<and> documents s' = documents s"
proof -
  from assms have body: "updateProject_try env pid formData s = (Inr r, s')"
    by (rule updateProject_success_try)
  with assms(2) obtain tenant p where reach: "reachesUpdate env pid formData s tenant p"
    using updateProject_try_success by blast
  then have p: "getProject s pid tenant = Some p"
    by (simp add: reachesUpdate_def)
  have "\<exists>sl. updateProject_write env tenant pid ((submittedData formData)\<lparr>uSlug := sl\<rparr>) s
      = (Inr r, s')"
  proof (cases "truthy (formData ''name'')")
    case None
    with body have "updateProject_write env tenant pid (submittedData formData) s = (Inr r, s')"
      unfolding updateProject_try_reached [OF reach] by simp
    then show ?thesis
      by (intro exI [of _ None]) (simp add: submittedData_def)
  next
    case (Some n)
    show ?thesis
    proof (cases "n = name p")
      case True
      with Some body
      have "updateProject_write env tenant pid (submittedData formData) s = (Inr r, s')"
        unfolding updateProject_try_reached [OF reach] by simp
      then show ?thesis
        by (intro exI [of _ None]) (simp add: submittedData_def)
    next
      case False
      with Some body assms(2)
      have "updateProject_write env tenant pid
          ((submittedData formData)\<lparr>uSlug := Some (generateSlug n)\<rparr>) s = (Inr r, s')"
        unfolding updateProject_try_reached [OF reach]
        by (auto simp: slugConflict_def split: option.splits)
      then show ?thesis by blast
    qed
  qed
  then obtain sl where "updateProject_write env tenant pid
      ((submittedData formData)\<lparr>uSlug := sl\<rparr>) s = (Inr r, s')" by blast
  from updateProject_write_success [OF p this] reach show ?thesis by blast
qed

text \<open>
  Claim C3, as amended. \<open>updateProject\<close> applies a partial update to \<open>name\<close>,
  \<open>description\<close>, \<open>metaTitle\<close>, \<open>metaDescription\<close>, \<open>primaryColor\<close> and \<open>customCss\<close>: after
  a successful call each of them has the submitted value when the form has a non-empty
  one, and keeps its previous stored value when the form has none.
\<close>

theorem updateProject_partial_update:
  assumes "updateProject env pid formData s = (Inr r, s')" and "success r"
  shows "\<exists>tenant p p'. truthy (currentTenantId (session env)) = Some tenant
     \<and> getProject s pid tenant = Some p \<and> getProject s' pid tenant = Some p'
     \<and> name p' = (case truthy (formData ''name'') of None \<Rightarrow> name p | Some n \<Rightarrow> n)
     \<and> description p' = orElse (truthy (formData ''description'')) (description p)
     \<and> metaTitle p' = orElse (truthy (formData ''metaTitle'')) (metaTitle p)
     \<and> metaDescription p' = orElse (truthy (formData ''metaDescription'')) (metaDescription p)
     \<and> primaryColor p' = orElse (truthy (formData ''primaryColor'')) (primaryColor p)
     \<and> customCss p' = orElse (truthy (formData ''customCss'')) (customCss p)"
proof -
  from updateProject_success [OF assms] obtain tenant p sl
    where reach: "reachesUpdate env pid formData s tenant p"
    and p': "getProject s' pid tenant
               = Some (writtenRow env ((submittedData formData)\<lparr>uSlug := sl\<rparr>) p)"
    by blast
  let ?p' = "writtenRow env ((submittedData formData)\<lparr>uSlug := sl\<rparr>) p"
  from reach have "truthy (currentTenantId (session env)) = Some tenant"
    and "getProject s pid tenant = Some p"
    by (simp_all add: reachesUpdate_def)
  moreover have "name ?p' = (case truthy (formData ''name'') of None \<Rightarrow> name p | Some n \<Rightarrow> n)"
    and "description ?p' = orElse (truthy (formData ''description'')) (description p)"
    and "metaTitle ?p' = orElse (truthy (formData ''metaTitle'')) (metaTitle p)"
    and "metaDescription ?p' = orElse (truthy (formData ''metaDescription'')) (metaDescription p)"
    and "primaryColor ?p' = orElse (truthy (formData ''primaryColor'')) (primaryColor p)"
    and "customCss ?p' = orElse (truthy (formData ''customCss'')) (customCss p)"
    by (simp_all add: writtenRow_def applyUpdateData_def submittedData_def)
  ultimately show ?thesis using p' by blast
qed

lemma updateProject_run:
  assumes "reachesUpdate env pid formData s tenant p"
    and "truthy (formData ''name'') = None \<or> truthy (formData ''name'') = Some (name p)"
    and "faults env TenantProjectsUpdate = None" and "faults env TenantEventsCreate = None"
  shows "fst (updateProject env pid formData s) = Inr (updatedResult pid)
    \<and> getProject (snd (updateProject env pid formData s)) pid tenant
        = Some (writtenRow env (submittedData formData) p)"
proof -
  from assms(1) have p: "getProject s pid tenant = Some p"
    by (simp add: reachesUpdate_def)
  from assms(2) have "updateProject_try env pid formData s
      = updateProject_write env tenant pid (submittedData formData) s"
    unfolding updateProject_try_reached [OF assms(1)] by auto
  moreover obtain s' where w: "updateProject_write env tenant pid (submittedData formData) s
      = (Inr (updatedResult pid), s')"
    unfolding updateProject_write_eq [OF p] using assms(3,4) by simp
  ultimately have "updateProject env pid formData s = (Inr (updatedResult pid), s')"
    by (simp add: updateProject_catch)
  with updateProject_write_success [OF p w] show ?thesis by simp
qed

lemma updateProject_rename_run:
  assumes "reachesUpdate env pid formData s tenant p"
    and "truthy (formData ''name'') = Some n" and "n \<noteq> name p"
    and "faults env DbProjectFindFirst = None"
    and "find (\<lambda>q. tenantId q = tenant \<and> slug q = generateSlug n \<and> projId q \<noteq> pid) (projects s)
           = None"
    and "faults env TenantProjectsUpdate = None" and "faults env TenantEventsCreate = None"
  shows "fst (updateProject env pid formData s) = Inr (updatedResult pid)
    \<and> getProject (snd (updateProject env pid formData s)) pid tenant
        = Some (writtenRow env ((submittedData formData)\<lparr>uSlug := Some (generateSlug n)\<rparr>) p)"
proof -
  let ?d = "(submittedData formData)\<lparr>uSlug := Some (generateSlug n)\<rparr>"
  from assms(1) have p: "getProject s pid tenant = Some p"
    by (simp add: reachesUpdate_def)
  from assms(2-5) have "updateProject_try env pid formData s
      = updateProject_write env tenant pid ?d s"
    unfolding updateProject_try_reached [OF assms(1)] by simp
  moreover obtain s' where w: "updateProject_write env tenant pid ?d s
      = (Inr (updatedResult pid), s')"
    unfolding updateProject_write_eq [OF p] using assms(6,7) by simp
  ultimately have "updateProject env pid formData s = (Inr (updatedResult pid), s')"
    by (simp add: updateProject_catch)
  with updateProject_write_success [OF p w] show ?thesis by simp
qed

lemma updateProject_conflict_run:
  assumes "reachesUpdate env pid formData s tenant p"
    and "truthy (formData ''name'') = Some n" and "n \<noteq> name p"
    and "faults env DbProjectFindFirst = None"
    and "find (\<lambda>q. tenantId q = tenant \<and> slug q = generateSlug n \<and> projId q \<noteq> pid) (projects s)
           = Some q"
  shows "updateProject env pid formData s = (Inr slugConflict, s)"
proof -
  from assms(2-5) have "updateProject_try env pid formData s = (Inr slugConflict, s)"
    unfolding updateProject_try_reached [OF assms(1)] by simp
  then show ?thesis by (rule updateProject_catch)
qed

text \<open>
  Claim C5. Let \<open>updateProject\<close> get as far as the comparison of the names. If the submitted
  name differs from the stored one and another project of the tenant has its slug, the
  result is the slug conflict failure and the store is unchanged. If it differs and no
  other project of the tenant has its slug (the project itself may), the update succeeds
  and the project gets the name and the slug. If it equals the stored name, the update
  succeeds with the slug unchanged whatever the other projects' slugs are and even when
  the slug lookup would throw: no lookup is made. The writes are assumed not to throw.
\<close>

theorem updateProject_slug_conflict:
  assumes "reachesUpdate env pid formData s tenant p"
  shows "(truthy (formData ''name'') = Some n \<and> n \<noteq> name p
           \<and> faults env DbProjectFindFirst = None
           \<and> (\<exists>q \<in> set (projects s). tenantId q = tenant \<and> slug q = generateSlug n \<and> projId q \<noteq> pid)
          \<longrightarrow> updateProject env pid formData s = (Inr slugConflict, s))
     \<and> (truthy (formData ''name'') = Some n \<and> n \<noteq> name p
           \<and> faults env DbProjectFindFirst = None
           \<and> \<not> (\<exists>q \<in> set (projects s). tenantId q = tenant \<and> slug q = generateSlug n \<and> projId q \<noteq> pid)
           \<and> faults env TenantProjectsUpdate = None \<and> faults env TenantEventsCreate = None
          \<longrightarrow> fst (updateProject env pid formData s) = Inr (updatedResult pid)
              \<and> (\<exists>p'. getProject (snd (updateProject env pid formData s)) pid tenant = Some p'
                    \<and> name p' = n \<and> slug p' = generateSlug n))
     \<and> (truthy (formData ''name'') = Some (name p)
           \<and> faults env TenantProjectsUpdate = None \<and> faults env TenantEventsCreate = None
          \<longrightarrow> fst (updateProject env pid formData s) = Inr (updatedResult pid)
              \<and> (\<exists>p'. getProject (snd (updateProject env pid formData s)) pid tenant = Some p'
                    \<and> name p' = name p \<and> slug p' = slug p))"
proof (intro conjI impI)
  assume a: "truthy (formData ''name'') = Some n \<and> n \<noteq> name p
           \<and> faults env DbProjectFindFirst = None
           \<and> (\<exists>q \<in> set (projects s). tenantId q = tenant \<and> slug q = generateSlug n \<and> projId q \<noteq> pid)"
  then obtain q where "find (\<lambda>q. tenantId q = tenant \<and> slug q = generateSlug n \<and> projId q \<noteq> pid)
      (projects s) = Some q"
    by (cases "find (\<lambda>q. tenantId q = tenant \<and> slug q = generateSlug n \<and> projId q \<noteq> pid)
      (projects s)") (auto simp: find_None_iff)
  with assms a show "updateProject env pid formData s = (Inr slugConflict, s)"
    by (intro updateProject_conflict_run [where n = n]) auto
next
  assume b: "truthy (formData ''name'') = Some n \<and> n \<noteq> name p
           \<and> faults env DbProjectFindFirst = None
           \<and> \<not> (\<exists>q \<in> set (projects s). tenantId q = tenant \<and> slug q = generateSlug n \<and> projId q \<noteq> pid)
           \<and> faults env TenantProjectsUpdate = None \<and> faults env TenantEventsCreate = None"
  then have none: "find (\<lambda>q. tenantId q = tenant \<and> slug q = generateSlug n \<and> projId q \<noteq> pid)
      (projects s) = None"
    by (auto simp: find_None_iff)
  from b have run: "fst (updateProject env pid formData s) = Inr (updatedResult pid)
    \<and> getProject (snd (updateProject env pid formData s)) pid tenant
        = Some (writtenRow env ((submittedData formData)\<lparr>uSlug := Some (generateSlug n)\<rparr>) p)"
    by (intro updateProject_rename_run [OF assms _ _ _ none]) auto
  then show "fst (updateProject env pid formData s) = Inr (updatedResult pid)" by simp
  from run b show "\<exists>p'. getProject (snd (updateProject env pid formData s)) pid tenant = Some p'
                    \<and> name p' = n \<and> slug p' = generateSlug n"
    by (simp add: writtenRow_def applyUpdateData_def submittedData_def)
next
  assume c: "truthy (formData ''name'') = Some (name p)
           \<and> faults env TenantProjectsUpdate = None \<and> faults env TenantEventsCreate = None"
  then have run: "fst (updateProject env pid formData s) = Inr (updatedResult pid)
    \<and> getProject (snd (updateProject env pid formData s)) pid tenant
        = Some (writtenRow env (submittedData formData) p)"
    by (intro updateProject_run [OF assms]) auto
  then show "fst (updateProject env pid formData s) = Inr (updatedResult pid)" by simp
  from run c show "\<exists>p'. getProject (snd (updateProject env pid formData s)) pid tenant = Some p'
                    \<and> name p' = name p \<and> slug p' = slug p"
    by (simp add: writtenRow_def applyUpdateData_def submittedData_def)
qed

text \<open>\<open>updateProject\<close> too writes \<open>isPublic\<close> without \<open>publishedAt\<close>: submitted with
  \<open>isPublic = true\<close> for the private example project, it leaves a public project that has
  no \<open>publishedAt\<close>.\<close>

lemma updateProject_public_without_publishedAt:
  "fst (updateProject demoEnv ''p1'' [''isPublic'' \<mapsto> ''true''] demoStore)
     = Inr (updatedResult ''p1'')
   \<and> map_option (\<lambda>p. (isPublic p, publishedAt p))
        (getProject (snd (updateProject demoEnv ''p1'' [''isPublic'' \<mapsto> ''true''] demoStore))
           ''p1'' ''t1'') = Some (True, None)"
proof -
  have src: "getProject demoStore ''p1'' ''t1'' = Some demoProject"
    by (simp add: getProject_def demo_defs)
  have "reachesUpdate demoEnv ''p1'' [''isPublic'' \<mapsto> ''true''] demoStore ''t1'' demoProject"
    using src by (simp add: reachesUpdate_def demo_context)
  then have "fst (updateProject demoEnv ''p1'' [''isPublic'' \<mapsto> ''true''] demoStore)
      = Inr (updatedResult ''p1'')
    \<and> getProject (snd (updateProject demoEnv ''p1'' [''isPublic'' \<mapsto> ''true''] demoStore))
        ''p1'' ''t1''
      = Some (writtenRow demoEnv (submittedData [''isPublic'' \<mapsto> ''true'']) demoProject)"
    by (rule updateProject_run) (simp_all add: demo_context truthy_simps)
  then show ?thesis
    by (simp add: writtenRow_def applyUpdateData_def submittedData_def demoProject_def)
qed

lemma demo_reaches:
  "getProject s pid ''t1'' = Some p \<Longrightarrow> reachesUpdate demoEnv pid formData s ''t1'' p"
  "getProject s pid ''t1'' = Some p \<Longrightarrow> reachesUpdate findFirstDownEnv pid formData s ''t1'' p"
  by (simp_all add: reachesUpdate_def findFirstDownEnv_def demoEnv_def truthy_def)

text \<open>The claim as stated fails for \<open>isPublic\<close>: for a form without the entry the
  action's \<open>rawData\<close> holds \<open>isPublic = false\<close>, and the form, which has only a
  description, submitted for a public project, succeeds and leaves the project
  private.\<close>

theorem updateProject_omitted_isPublic_counterexample:
  "[''description'' \<mapsto> ''Reference''] ''isPublic'' = None
   \<and> rawIsPublic (updateRawData [''description'' \<mapsto> ''Reference'']) = False
   \<and> map_option isPublic (getProject publicStore ''p1'' ''t1'') = Some True
   \<and> fst (updateProject demoEnv ''p1'' [''description'' \<mapsto> ''Reference''] publicStore)
       = Inr \<lparr>success = True, message = ''Project updated successfully!'', projectId = Some ''p1''\<rparr>
   \<and> map_option isPublic
        (getProject (snd (updateProject demoEnv ''p1'' [''description'' \<mapsto> ''Reference''] publicStore))
           ''p1'' ''t1'') = Some False"
proof -
  let ?src = "demoProject\<lparr>isPublic := True, publishedAt := Some 1600\<rparr>"
  have src: "getProject publicStore ''p1'' ''t1'' = Some ?src"
    by (simp add: getProject_def publicStore_def demo_defs)
  have "fst (updateProject demoEnv ''p1'' [''description'' \<mapsto> ''Reference''] publicStore)
      = Inr (updatedResult ''p1'')
    \<and> getProject (snd (updateProject demoEnv ''p1'' [''description'' \<mapsto> ''Reference''] publicStore))
        ''p1'' ''t1''
      = Some (writtenRow demoEnv (submittedData [''description'' \<mapsto> ''Reference'']) ?src)"
    by (rule updateProject_run [OF demo_reaches(1) [OF src]])
      (simp_all add: demo_context truthy_def)
  with src show ?thesis
    by (simp add: updatedResult_def writtenRow_def applyUpdateData_def submittedData_def
        updateRawData_def)
qed

text \<open>A description submitted for the example project: the description is written, the
  name and the other text fields stay.\<close>

theorem updateProject_partial_update_witness:
  "\<exists>s'. updateProject demoEnv ''p1'' [''description'' \<mapsto> ''Reference''] demoStore
          = (Inr (updatedResult ''p1''), s')
      \<and> success (updatedResult ''p1'')
      \<and> (\<exists>p'. getProject s' ''p1'' ''t1'' = Some p'
            \<and> name p' = ''API Docs'' \<and> description p' = Some ''Reference''
            \<and> metaTitle p' = None \<and> metaDescription p' = None
            \<and> primaryColor p' = None \<and> customCss p' = None)"
proof -
  let ?form = "[''description'' \<mapsto> ''Reference'']"
  have src: "getProject demoStore ''p1'' ''t1'' = Some demoProject"
    by (simp add: getProject_def demo_defs)
  have "fst (updateProject demoEnv ''p1'' ?form demoStore) = Inr (updatedResult ''p1'')"
    using updateProject_run [OF demo_reaches(1) [OF src], of ?form]
    by (simp add: demo_context truthy_def)
  then obtain s' where run: "updateProject demoEnv ''p1'' ?form demoStore
      = (Inr (updatedResult ''p1''), s')"
    by (cases "updateProject demoEnv ''p1'' ?form demoStore") simp
  have ok: "success (updatedResult ''p1'')"
    by (simp add: updatedResult_def)
  from updateProject_partial_update [OF run ok] src
  have "\<exists>p'. getProject s' ''p1'' ''t1'' = Some p'
            \<and> name p' = ''API Docs'' \<and> description p' = Some ''Reference''
            \<and> metaTitle p' = None \<and> metaDescription p' = None
            \<and> primaryColor p' = None \<and> customCss p' = None"
    by (auto simp: demo_context truthy_simps orElse_def demoProject_def)
  with run ok show ?thesis by (intro exI [of _ s']) simp
qed

text \<open>Renaming the example project to a name with the second project's slug, to a name
  with its own slug, and to its own name while the slug lookup is down.\<close>

theorem updateProject_slug_conflict_witness:
  "updateProject demoEnv ''p1'' [''name'' \<mapsto> ''Guides!''] twoStore = (Inr slugConflict, twoStore)
   \<and> fst (updateProject demoEnv ''p1'' [''name'' \<mapsto> ''api docs''] twoStore)
       = Inr (updatedResult ''p1'')
   \<and> map_option slug (getProject (snd (updateProject demoEnv ''p1'' [''name'' \<mapsto> ''api docs''] twoStore))
                         ''p1'' ''t1'') = Some ''api-docs''
   \<and> fst (updateProject findFirstDownEnv ''p1'' [''name'' \<mapsto> ''API Docs''] twoStore)
       = Inr (updatedResult ''p1'')"
proof -
  have src: "getProject twoStore ''p1'' ''t1'' = Some demoProject"
    by (simp add: getProject_def twoStore_def demo_defs)
  have ps: "projects twoStore
      = [demoProject, demoProject\<lparr>projId := ''p2'', name := ''Guides'', slug := ''guides''\<rparr>]"
    by (simp add: twoStore_def demo_defs)
  have "updateProject demoEnv ''p1'' [''name'' \<mapsto> ''Guides!''] twoStore = (Inr slugConflict, twoStore)"
    using updateProject_slug_conflict
      [OF demo_reaches(1) [OF src], of "[''name'' \<mapsto> ''Guides!'']" "''Guides!''"]
    by (simp add: demo_context truthy_def generateSlug_demo ps demoProject_def)
  moreover
  have "fst (updateProject demoEnv ''p1'' [''name'' \<mapsto> ''api docs''] twoStore)
       = Inr (updatedResult ''p1'')
     \<and> map_option slug (getProject (snd (updateProject demoEnv ''p1'' [''name'' \<mapsto> ''api docs''] twoStore))
                         ''p1'' ''t1'') = Some ''api-docs''"
    using updateProject_slug_conflict
      [OF demo_reaches(1) [OF src], of "[''name'' \<mapsto> ''api docs'']" "''api docs''"]
    by (auto simp: demo_context truthy_def generateSlug_demo ps demoProject_def)
  moreover
  have "fst (updateProject findFirstDownEnv ''p1'' [''name'' \<mapsto> ''API Docs''] twoStore)
       = Inr (updatedResult ''p1'')"
    using updateProject_slug_conflict
      [OF demo_reaches(2) [OF src], of "[''name'' \<mapsto> ''API Docs'']" "''API Docs''"]
    by (simp add: findFirstDownEnv_def demoEnv_def truthy_def demoProject_def)
  ultimately show ?thesis by simp
qed

end
